theory Spec2Isabelle
  imports Complex_Main
begin

section \<open>Results, errors and tensors\<close>

text \<open>
  The diffusion engine (\<^verbatim>\<open>diffusion.py\<close>) and the transformer backbone
  (\<^verbatim>\<open>architecture.py\<close>) compute over floating-point tensors. The embedding works in exact
  real arithmetic. A tensor of shape (batch, ...) is a list with one row per batch element, the
  remaining dimensions flattened into the row. Python exceptions are values of \<open>error\<close>.
  Tensor division and roots never raise in PyTorch: a zero divisor gives an infinite or
  undefined entry. The embedding makes these points explicit as the results \<open>ZeroDivisor\<close>
  (the operator \<^verbatim>\<open>/\<close> with divisor 0) and \<open>NonFinite\<close> (a power or a root outside its
  real domain).
\<close>

datatype error =
    NameError string
  | NotImplementedError
  | ValueError
  | IndexError
  | ZeroDivisor
  | NonFinite
  | AttributeError
  | EinopsError

type_synonym 'a result = "error + 'a"

type_synonym tensor = "real list list"

definition bindE :: "'a result \<Rightarrow> ('a \<Rightarrow> 'b result) \<Rightarrow> 'b result" where
  "bindE m f = (case m of Inl e \<Rightarrow> Inl e | Inr v \<Rightarrow> f v)"

fun mapE :: "('a \<Rightarrow> 'b result) \<Rightarrow> 'a list \<Rightarrow> 'b list result" where
  "mapE f [] = Inr []"
| "mapE f (a # as) = bindE (f a) (\<lambda>v. bindE (mapE f as) (\<lambda>vs. Inr (v # vs)))"

definition tdiv :: "real \<Rightarrow> real \<Rightarrow> real result" where
  "tdiv a b = (if b = 0 then Inl ZeroDivisor else Inr (a / b))"

definition tsqrt :: "real \<Rightarrow> real result" where
  "tsqrt a = (if a < 0 then Inl NonFinite else Inr (sqrt a))"

text \<open>\<^verbatim>\<open>base ** e\<close> on a tensor entry: \<^verbatim>\<open>x ** 0\<close> is 1 for every x, 0 to a negative power
  is infinite, a negative base has a real power only for an integer exponent.\<close>

definition tpow :: "real \<Rightarrow> real \<Rightarrow> real result" where
  "tpow b e =
     (if e = 0 then Inr 1
      else if 0 < b then Inr (b powr e)
      else if b = 0 then (if 0 < e then Inr 0 else Inl NonFinite)
      else if e \<in> \<int> then Inr (b powi \<lfloor>e\<rfloor>)
      else Inl NonFinite)"

text \<open>\<^verbatim>\<open>Tensor.clamp(min, max)\<close> computes \<open>min (max x lo) hi\<close>.\<close>

definition clamp :: "real \<Rightarrow> real \<Rightarrow> real \<Rightarrow> real" where
  "clamp x lo hi = min (max x lo) hi"

text \<open>\<^verbatim>\<open>Tensor.long()\<close> truncates towards zero.\<close>

definition long :: "real \<Rightarrow> int" where
  "long r = (if 0 \<le> r then \<lfloor>r\<rfloor> else \<lceil>r\<rceil>)"

text \<open>Indexing a one-dimensional tensor: a negative index counts from the end, an index out of
  range raises.\<close>

definition tensor_index :: "'a list \<Rightarrow> int \<Rightarrow> 'a result" where
  "tensor_index xs i =
     (if 0 \<le> i \<and> i < int (length xs) then Inr (xs ! nat i)
      else if i < 0 \<and> - int (length xs) \<le> i then Inr (xs ! nat (int (length xs) + i))
      else Inl IndexError)"

text \<open>\<^verbatim>\<open>torch.linspace(a, b, n)\<close>: n evenly spaced points from a to b, the single point a
  when n is 1.\<close>

definition linspace :: "real \<Rightarrow> real \<Rightarrow> nat \<Rightarrow> real list" where
  "linspace a b n =
     (if n = 1 then [a] else map (\<lambda>i. a + real i * (b - a) / real (n - 1)) [0..<n])"

section \<open>The noise schedule (class Diffuzz)\<close>

record Diffuzz =
  s :: real
  init_alpha_cumprod :: real
  scaler :: real
  cached_steps :: "real list option"
  clamp_range :: "real \<times> real"

text \<open>\<^verbatim>\<open>Diffuzz._alpha_cumprod\<close> on one entry of the tensor t.\<close>

definition alpha_cumprod :: "Diffuzz \<Rightarrow> real \<Rightarrow> real result" where
  "alpha_cumprod d t =
     (case cached_steps d of
        None \<Rightarrow>
          bindE (if scaler d > 1 then bindE (tpow (1 - t) (scaler d)) (\<lambda>p. Inr (1 - p))
                 else if scaler d < 1 then tpow t (scaler d)
                 else Inr t) (\<lambda>t'.
          bindE (tdiv (t' + s d) (1 + s d)) (\<lambda>q.
          bindE (tdiv ((clamp (cos (q * pi * 0.5)) 0 1)\<^sup>2) (init_alpha_cumprod d)) (\<lambda>a.
          Inr (clamp a (fst (clamp_range d)) (snd (clamp_range d))))))
      | Some cs \<Rightarrow> tensor_index cs (long (t * real_of_int (int (length cs) - 1))))"

text \<open>\<^verbatim>\<open>Diffuzz.__init__(s, cache_steps, scaler, clamp_range)\<close>; the device is dropped.\<close>

definition Diffuzz_init :: "real \<Rightarrow> nat option \<Rightarrow> real \<Rightarrow> real \<times> real \<Rightarrow> Diffuzz result" where
  "Diffuzz_init s0 cache_steps sc cr =
     bindE (tdiv s0 (1 + s0)) (\<lambda>q.
       let d = \<lparr>s = s0, init_alpha_cumprod = (cos (q * pi * 0.5))\<^sup>2, scaler = sc,
                cached_steps = None, clamp_range = cr\<rparr>
       in case cache_steps of
            None \<Rightarrow> Inr d
          | Some K \<Rightarrow> bindE (mapE (alpha_cumprod d) (linspace 0 1 K))
                        (\<lambda>cs. Inr (d\<lparr>cached_steps := Some cs\<rparr>)))"

section \<open>Randomness\<close>

text \<open>
  The generator behind \<^verbatim>\<open>torch.randn\<close> is the sequence of standard-normal values it will
  deliver next; a draw takes as many values as the tensor has entries and returns the rest of
  the sequence.
\<close>

type_synonym rng = "nat \<Rightarrow> real"

fun randn_like :: "rng \<Rightarrow> tensor \<Rightarrow> tensor \<times> rng" where
  "randn_like g [] = ([], g)"
| "randn_like g (r # rs) =
     (let (zs, g') = randn_like (\<lambda>k. g (length r + k)) rs
      in (map g [0..<length r] # zs, g'))"

text \<open>A shape is the batch size and the remaining dimensions.\<close>

type_synonym shape = "nat \<times> nat list"

definition randn :: "rng \<Rightarrow> shape \<Rightarrow> tensor \<times> rng" where
  "randn g sh = randn_like g (replicate (fst sh) (replicate (prod_list (snd sh)) 0))"

section \<open>Forward diffusion\<close>

text \<open>\<^verbatim>\<open>Diffuzz.diffuse\<close> on one batch element: \<open>alpha_cumprod\<close> is viewed as
  (batch, 1, ...), so one coefficient multiplies the whole row.\<close>

definition diffuse1 :: "Diffuzz \<Rightarrow> real list \<Rightarrow> real \<Rightarrow> real list \<Rightarrow> real list result" where
  "diffuse1 d x t noise =
     bindE (alpha_cumprod d t) (\<lambda>ac.
     bindE (tsqrt ac) (\<lambda>sa.
     bindE (tsqrt (1 - ac)) (\<lambda>sb.
     Inr (map2 (\<lambda>xi ni. sa * xi + sb * ni) x noise))))"

definition diffuse ::
  "Diffuzz \<Rightarrow> rng \<Rightarrow> tensor \<Rightarrow> real list \<Rightarrow> tensor option \<Rightarrow> ((tensor \<times> tensor) \<times> rng) result" where
  "diffuse d g x t noise =
     (let (n, g') = (case noise of None \<Rightarrow> randn_like g x | Some n \<Rightarrow> (n, g))
      in bindE (mapE (\<lambda>(xb, tb, nb). diffuse1 d xb tb nb) (zip x (zip t n)))
           (\<lambda>xt. Inr ((xt, n), g')))"

section \<open>Samplers\<close>

datatype sampler_class = SimpleSampler | DDPMSampler | DDIMSampler

record sampler =
  cls :: sampler_class
  current_step :: int

definition new_sampler :: "sampler_class \<Rightarrow> sampler" where
  "new_sampler c = \<lparr>cls = c, current_step = - 1\<rparr>"

definition init_x :: "rng \<Rightarrow> shape \<Rightarrow> tensor \<times> rng" where
  "init_x g sh = randn g sh"

text \<open>\<^verbatim>\<open>DDPMSampler.step\<close> on one batch element; \<open>z\<close> is the row of
  \<^verbatim>\<open>torch.randn_like(mu)\<close>.\<close>

definition DDPM_step1 ::
  "Diffuzz \<Rightarrow> real list \<Rightarrow> real \<Rightarrow> real \<Rightarrow> real list \<Rightarrow> real list \<Rightarrow> real list result" where
  "DDPM_step1 d x t t_prev noise z =
     bindE (alpha_cumprod d t) (\<lambda>ac.
     bindE (alpha_cumprod d t_prev) (\<lambda>acp.
     bindE (tdiv ac acp) (\<lambda>alpha.
     bindE (tdiv 1 alpha) (\<lambda>ia.
     bindE (tsqrt ia) (\<lambda>sia.
     bindE (tsqrt (1 - ac)) (\<lambda>sb.
     bindE (mapE (\<lambda>ni. tdiv ((1 - alpha) * ni) sb) noise) (\<lambda>w.
     bindE (tdiv ((1 - alpha) * (1 - acp)) (1 - ac)) (\<lambda>v.
     bindE (tsqrt v) (\<lambda>sv.
     let mu = map2 (\<lambda>xi wi. sia * (xi - wi)) x w;
         std = map2 (\<lambda>_ zi. sv * zi) mu z
     in Inr (map2 (\<lambda>mi si. mi + si * (if t_prev \<noteq> 0 then 1 else 0)) mu std))))))))))"

definition DDPM_step ::
  "Diffuzz \<Rightarrow> rng \<Rightarrow> tensor \<Rightarrow> real list \<Rightarrow> real list \<Rightarrow> tensor \<Rightarrow> (tensor \<times> rng) result" where
  "DDPM_step d g x t t_prev noise =
     (let (z, g') = randn_like g x
      in bindE (mapE (\<lambda>(xb, tb, pb, nb, zb). DDPM_step1 d xb tb pb nb zb)
                  (zip x (zip t (zip t_prev (zip noise z)))))
           (\<lambda>y. Inr (y, g')))"

text \<open>The clean-sample estimate \<^verbatim>\<open>x0\<close> inside \<^verbatim>\<open>DDIMSampler.step\<close>, from the local
  \<^verbatim>\<open>alpha_cumprod\<close>.\<close>

definition DDIM_x0 :: "real \<Rightarrow> real list \<Rightarrow> real list \<Rightarrow> real list result" where
  "DDIM_x0 ac x noise =
     bindE (tsqrt (1 - ac)) (\<lambda>sb.
     bindE (tsqrt ac) (\<lambda>sa.
     mapE (\<lambda>(xi, ni). tdiv (xi - sb * ni) sa) (zip x noise)))"

definition DDIM_step1 ::
  "Diffuzz \<Rightarrow> real list \<Rightarrow> real \<Rightarrow> real \<Rightarrow> real list \<Rightarrow> real list result" where
  "DDIM_step1 d x t t_prev noise =
     bindE (alpha_cumprod d t) (\<lambda>ac.
     bindE (alpha_cumprod d t_prev) (\<lambda>acp.
     bindE (DDIM_x0 ac x noise) (\<lambda>x0.
     bindE (tsqrt (1 - acp)) (\<lambda>dp_xt.
     bindE (tsqrt acp) (\<lambda>sp.
     Inr (map2 (\<lambda>x0i ni. sp * x0i + dp_xt * ni) x0 noise))))))"

definition DDIM_step ::
  "Diffuzz \<Rightarrow> tensor \<Rightarrow> real list \<Rightarrow> real list \<Rightarrow> tensor \<Rightarrow> tensor result" where
  "DDIM_step d x t t_prev noise =
     mapE (\<lambda>(xb, tb, pb, nb). DDIM_step1 d xb tb pb nb) (zip x (zip t (zip t_prev noise)))"

definition step ::
  "Diffuzz \<Rightarrow> sampler_class \<Rightarrow> rng \<Rightarrow> tensor \<Rightarrow> real list \<Rightarrow> real list \<Rightarrow> tensor
     \<Rightarrow> (tensor \<times> rng) result" where
  "step d c g x t t_prev noise =
     (case c of
        SimpleSampler \<Rightarrow> Inl NotImplementedError
      | DDPMSampler \<Rightarrow> DDPM_step d g x t t_prev noise
      | DDIMSampler \<Rightarrow> bindE (DDIM_step d x t t_prev noise) (\<lambda>y. Inr (y, g)))"

text \<open>\<^verbatim>\<open>SimpleSampler.__call__\<close>: count the call, then step.\<close>

definition sampler_call ::
  "Diffuzz \<Rightarrow> sampler \<Rightarrow> rng \<Rightarrow> tensor \<Rightarrow> real list \<Rightarrow> real list \<Rightarrow> tensor
     \<Rightarrow> (tensor \<times> sampler \<times> rng) result" where
  "sampler_call d smp g x t t_prev noise =
     (let smp' = smp\<lparr>current_step := current_step smp + 1\<rparr>
      in bindE (step d (cls smp') g x t t_prev noise) (\<lambda>(y, g'). Inr (y, smp', g')))"

definition undiffuse ::
  "Diffuzz \<Rightarrow> rng \<Rightarrow> tensor \<Rightarrow> real list \<Rightarrow> real list \<Rightarrow> tensor \<Rightarrow> sampler option
     \<Rightarrow> (tensor \<times> sampler \<times> rng) result" where
  "undiffuse d g x t t_prev noise smp =
     sampler_call d (case smp of None \<Rightarrow> new_sampler DDPMSampler | Some sm \<Rightarrow> sm) g x t t_prev noise"

definition sampler_dict :: "(string \<times> sampler_class) list" where
  "sampler_dict = [(''ddpm'', DDPMSampler), (''ddim'', DDIMSampler)]"

section \<open>The sampling loop\<close>

text \<open>
  The names bound at module level in \<^verbatim>\<open>diffusion.py\<close>: its only import is
  \<^verbatim>\<open>import torch\<close>, followed by the three sampler classes, \<^verbatim>\<open>sampler_dict\<close> and
  \<^verbatim>\<open>Diffuzz\<close>. Reading any other global name that is not a builtin raises NameError.
\<close>

definition module_globals :: "string list" where
  "module_globals =
     [''torch'', ''SimpleSampler'', ''DDPMSampler'', ''DDIMSampler'', ''sampler_dict'', ''Diffuzz'']"

definition global_name :: "string \<Rightarrow> unit result" where
  "global_name n = (if n \<in> set module_globals then Inr () else Inl (NameError n))"

text \<open>The sampler argument is a string, a class, or something else.\<close>

datatype sampler_arg = SamplerStr string | SamplerCls sampler_class | SamplerOther

type_synonym denoiser = "tensor \<Rightarrow> real list \<Rightarrow> tensor result"

text \<open>The blend \<^verbatim>\<open>x * mask + x_renoised * (1-mask)\<close>, entry by entry.\<close>

definition blend :: "tensor \<Rightarrow> tensor \<Rightarrow> tensor \<Rightarrow> tensor" where
  "blend x msk x_renoised =
     map2 (\<lambda>(xr, mr) rr. map2 (\<lambda>(xi, mi) ri. xi * mi + ri * (1 - mi)) (zip xr mr) rr)
       (zip x msk) x_renoised"

text \<open>The progress schedule \<^verbatim>\<open>r_range\<close>: one row per schedule point, each row the point
  repeated over the batch.\<close>

definition r_range ::
  "string \<Rightarrow> real \<Rightarrow> real \<Rightarrow> nat \<Rightarrow> shape \<Rightarrow> tensor option \<Rightarrow> tensor result" where
  "r_range steps t_start t_end timesteps sh x_init =
     (let b = (case x_init of None \<Rightarrow> fst sh | Some xi \<Rightarrow> length xi)
      in if steps = ''linear'' then
           Inr (map (replicate b) (linspace t_start t_end (timesteps + 1)))
         else if steps = ''ays'' then
           bindE (global_name ''torch'') (\<lambda>_.
           bindE (global_name ''math'') (\<lambda>_.
           Inr (map (\<lambda>i. replicate b
                  (tan ((1 - real i / real timesteps) * arctan t_start
                        + (real i / real timesteps) * arctan t_end)))
                  [0..<timesteps + 1])))
         else Inl NotImplementedError)"

text \<open>One pass through the body of the \<^verbatim>\<open>for\<close> loop, on the working sample, the sampler and
  the generator; it returns them updated, the new sample being the one appended to
  \<^verbatim>\<open>preds\<close>.\<close>

definition sample_iteration ::
  "Diffuzz \<Rightarrow> denoiser \<Rightarrow> tensor option \<Rightarrow> tensor option \<Rightarrow> tensor \<Rightarrow> nat
     \<Rightarrow> tensor \<times> sampler \<times> rng \<Rightarrow> (tensor \<times> sampler \<times> rng) result" where
  "sample_iteration d model msk x_init rr i st =
     (case st of (x, smp, g) \<Rightarrow>
        bindE (case (msk, x_init) of
                 (Some m, Some xi) \<Rightarrow>
                   bindE (diffuse d g xi (rr ! i) None)
                     (\<lambda>((x_renoised, _), g'). Inr (blend x m x_renoised, g'))
               | _ \<Rightarrow> Inr (x, g)) (\<lambda>(x1, g1).
        bindE (model x1 (rr ! i)) (\<lambda>pred_noise.
        undiffuse d g1 x1 (rr ! i) (rr ! (i + 1)) pred_noise (Some smp))))"

fun sample_loop ::
  "Diffuzz \<Rightarrow> denoiser \<Rightarrow> tensor option \<Rightarrow> tensor option \<Rightarrow> tensor \<Rightarrow> nat list
     \<Rightarrow> tensor \<times> sampler \<times> rng \<Rightarrow> tensor list \<Rightarrow> tensor list result" where
  "sample_loop d model msk x_init rr [] st preds = Inr preds"
| "sample_loop d model msk x_init rr (i # is) st preds =
     bindE (sample_iteration d model msk x_init rr i st)
       (\<lambda>st'. sample_loop d model msk x_init rr is st' (preds @ [fst st']))"

text \<open>The starting sample of the trajectory, line
  \<^verbatim>\<open>x = sampler.init_x(shape) if x_init is None or mask is not None else x_init.clone()\<close>.\<close>

definition start_x :: "rng \<Rightarrow> shape \<Rightarrow> tensor option \<Rightarrow> tensor option \<Rightarrow> tensor \<times> rng" where
  "start_x g sh msk x_init =
     (case x_init of
        None \<Rightarrow> init_x g sh
      | Some xi \<Rightarrow> (if msk \<noteq> None then init_x g sh else (xi, g)))"

definition make_sampler :: "sampler_arg \<Rightarrow> sampler result" where
  "make_sampler a =
     (case a of
        SamplerStr n \<Rightarrow>
          (case map_of sampler_dict n of
             Some c \<Rightarrow> Inr (new_sampler c)
           | None \<Rightarrow> Inl ValueError)
      | SamplerCls c \<Rightarrow> Inr (new_sampler c)
      | SamplerOther \<Rightarrow> Inl ValueError)"

definition sample ::
  "Diffuzz \<Rightarrow> rng \<Rightarrow> denoiser \<Rightarrow> shape \<Rightarrow> tensor option \<Rightarrow> real \<Rightarrow> real \<Rightarrow> nat
     \<Rightarrow> tensor option \<Rightarrow> sampler_arg \<Rightarrow> string \<Rightarrow> tensor list result" where
  "sample d g model sh msk t_start t_end timesteps x_init smp steps =
     bindE (r_range steps t_start t_end timesteps sh x_init) (\<lambda>rr.
     bindE (make_sampler smp) (\<lambda>sm.
     let (x, g') = start_x g sh msk x_init
     in sample_loop d model msk x_init rr [0..<timesteps] (x, sm, g') []))"

section \<open>Loss weighting\<close>

definition p2_weight :: "Diffuzz \<Rightarrow> real \<Rightarrow> real \<Rightarrow> real \<Rightarrow> real result" where
  "p2_weight d t k gamma =
     bindE (alpha_cumprod d t) (\<lambda>ac.
     bindE (tdiv ac (1 - ac)) (\<lambda>r.
     tpow (k + r) (- gamma)))"

section \<open>Auxiliary notions for the schedule\<close>

text \<open>The reparameterised progress value that the continuous branch of \<open>alpha_cumprod\<close>
  computes for a scaler \<open>sc \<ge> 0\<close> and \<open>t\<close> in [0,1], the angle fed to the cosine, and the
  value before the final clamp.\<close>

definition warp :: "real \<Rightarrow> real \<Rightarrow> real" where
  "warp sc t = (if 1 < sc then 1 - (1 - t) powr sc
                else if sc = 0 then 1
                else if sc < 1 then t powr sc
                else t)"

definition angle :: "real \<Rightarrow> real \<Rightarrow> real" where
  "angle s0 w = (w + s0) / (1 + s0) * (pi / 2)"

definition level :: "Diffuzz \<Rightarrow> real \<Rightarrow> real" where
  "level d t = (cos (angle (s d) (warp (scaler d) t)))\<^sup>2 / init_alpha_cumprod d"

text \<open>A schedule built without a cache, with offset and scaler not negative.\<close>

definition continuous :: "Diffuzz \<Rightarrow> bool" where
  "continuous d \<longleftrightarrow> cached_steps d = None \<and> 0 \<le> s d \<and> 0 \<le> scaler d \<and>
      init_alpha_cumprod d = (cos (angle (s d) 0))\<^sup>2"

text \<open>The schedule of \<^verbatim>\<open>Diffuzz()\<close> with every argument at its default.\<close>

definition default_Diffuzz :: Diffuzz where
  "default_Diffuzz =
     \<lparr>s = 8 / 1000, init_alpha_cumprod = (cos (angle (8 / 1000) 0))\<^sup>2, scaler = 1,
      cached_steps = None, clamp_range = (1 / 10000, 9999 / 10000)\<rparr>"

text \<open>The schedule of \<^verbatim>\<open>Diffuzz(cache_steps=3)\<close>, every other argument at its default.\<close>

definition cached3_Diffuzz :: Diffuzz where
  "cached3_Diffuzz =
     (case Diffuzz_init (8 / 1000) (Some 3) 1 (1 / 10000, 9999 / 10000) of
        Inr d \<Rightarrow> d
      | Inl e \<Rightarrow> default_Diffuzz)"

section \<open>The transformer backbone (architecture.py)\<close>

text \<open>
  The backbone acts on every batch element on its own (attention is never shared across the
  batch), so the embedding follows one element: a sample is a matrix with one row per
  sequence position, the progress value a real, the attention mask a Boolean matrix. Dropout
  is the identity (its configured probability is 0 by default, and it is inactive in
  evaluation). The values that \<^verbatim>\<open>xavier_uniform_\<close> and \<^verbatim>\<open>normal_\<close> draw are whatever the
  weights of the module under initialisation hold.
\<close>

type_synonym vec = "real list"

type_synonym mat = "real list list"

record ArchitectureConfig =
  input_dim :: nat
  learn_sigma :: bool
  d_model :: nat
  layer_norm_eps :: real
  seq_len :: nat
  d_head :: nat
  n_heads :: nat
  n_layers :: nat
  qkv_bias :: bool
  attn_proj_bias :: bool
  dropout :: real
  mlp_ratio :: nat
  mlp_bias :: bool
  frequency_embedding_size :: nat
  learned_pos_embed :: bool

text \<open>\<^verbatim>\<open>nn.Linear\<close>: the weight has one row per output feature; the bias is optional.\<close>

record Linear =
  weight :: mat
  bias :: "vec option"

definition dot :: "vec \<Rightarrow> vec \<Rightarrow> real" where
  "dot u v = sum_list (map2 (*) u v)"

definition Linear_forward :: "Linear \<Rightarrow> vec \<Rightarrow> vec" where
  "Linear_forward l v =
     (case bias l of
        None \<Rightarrow> map (\<lambda>row. dot row v) (weight l)
      | Some b \<Rightarrow> map2 (\<lambda>row bi. dot row v + bi) (weight l) b)"

definition sigmoid :: "real \<Rightarrow> real" where
  "sigmoid a = 1 / (1 + exp (- a))"

definition SiLU :: "real \<Rightarrow> real" where
  "SiLU a = a * sigmoid a"

text \<open>\<^verbatim>\<open>nn.GELU(approximate="tanh")\<close>.\<close>

definition GELU :: "real \<Rightarrow> real" where
  "GELU a = 0.5 * a * (1 + tanh (sqrt (2 / pi) * (a + 0.044715 * a ^ 3)))"

text \<open>\<^verbatim>\<open>nn.LayerNorm(d_model, elementwise_affine=False, eps)\<close> on one position.\<close>

definition LayerNorm :: "real \<Rightarrow> vec \<Rightarrow> vec" where
  "LayerNorm eps v =
     (let mean = sum_list v / real (length v);
          var = sum_list (map (\<lambda>a. (a - mean)\<^sup>2) v) / real (length v)
      in map (\<lambda>a. (a - mean) / sqrt (var + eps)) v)"

definition modulate :: "mat \<Rightarrow> vec \<Rightarrow> vec \<Rightarrow> mat" where
  "modulate x shift scale =
     map (\<lambda>row. map2 (\<lambda>(xi, sc) sh. xi * (1 + sc) + sh) (zip row scale) shift) x"

text \<open>\<^verbatim>\<open>Tensor.chunk(n, dim=1)\<close> of one row: pieces of \<open>\<lceil>length / n\<rceil>\<close> entries.\<close>

definition chunk :: "nat \<Rightarrow> vec \<Rightarrow> vec list" where
  "chunk n v =
     (let c = (length v + n - 1) div n
      in if c = 0 then replicate n []
         else map (\<lambda>i. take c (drop (i * c) v)) [0..<(length v + c - 1) div c])"

subsection \<open>Embeddings\<close>

record TimestepEmbedder =
  mlp_0 :: Linear
  mlp_2 :: Linear

definition timestep_embedding :: "real \<Rightarrow> nat \<Rightarrow> real \<Rightarrow> vec" where
  "timestep_embedding t dm max_period =
     (let half = dm div 2;
          freqs = map (\<lambda>i. exp (- ln max_period * real i / real half)) [0..<half];
          args = map (\<lambda>f. t * f) freqs;
          embedding = map cos args @ map sin args
      in if dm mod 2 \<noteq> 0 then embedding @ [0] else embedding)"

definition TimestepEmbedder_forward :: "ArchitectureConfig \<Rightarrow> TimestepEmbedder \<Rightarrow> real \<Rightarrow> vec" where
  "TimestepEmbedder_forward cfg e t =
     (let t_freq = timestep_embedding t (frequency_embedding_size cfg) 10000
      in Linear_forward (mlp_2 e) (map SiLU (Linear_forward (mlp_0 e) t_freq)))"


subsection \<open>Attention\<close>

text \<open>
  \<^verbatim>\<open>torch.nn.functional.scaled_dot_product_attention(q, k, v, attn_mask)\<close> for one head, as
  PyTorch documents it: the weights of a query are the softmax of its scaled scores, a key
  whose mask entry is False having weight 0.
\<close>

definition vsum :: "nat \<Rightarrow> vec list \<Rightarrow> vec" where
  "vsum n vs = foldr (map2 (+)) vs (replicate n 0)"

definition scaled_dot_product_attention ::
  "mat \<Rightarrow> mat \<Rightarrow> mat \<Rightarrow> bool list list option \<Rightarrow> mat" where
  "scaled_dot_product_attention q k v attn_mask =
     map (\<lambda>i.
        let scores = map (\<lambda>kj. dot (q ! i) kj / sqrt (real (length (q ! i)))) k;
            e = (case attn_mask of
                   None \<Rightarrow> map exp scores
                 | Some m \<Rightarrow> map2 (\<lambda>sc keep. if keep then exp sc else 0) scores (m ! i));
            z = sum_list e
        in vsum (length (q ! i)) (map2 (\<lambda>ej vj. map (\<lambda>a. ej / z * a) vj) e v))
       [0..<length q]"

record Attention =
  qkv :: Linear
  proj :: Linear

text \<open>\<^verbatim>\<open>Attention.forward(x, attn_mask)\<close>. The rearrangement into heads needs
  \<open>d_model = n_heads * d_head\<close>. The call of the attention function passes
  \<^verbatim>\<open>attn_mask=None\<close>.\<close>

definition Attention_forward ::
  "ArchitectureConfig \<Rightarrow> Attention \<Rightarrow> mat \<Rightarrow> bool list list option \<Rightarrow> mat result" where
  "Attention_forward cfg a x attn_mask =
     (let qkv_x = map (Linear_forward (qkv a)) x;
          q = map (take (d_model cfg)) qkv_x;
          k = map (\<lambda>r. take (d_model cfg) (drop (d_model cfg) r)) qkv_x;
          v = map (\<lambda>r. take (d_model cfg) (drop (2 * d_model cfg) r)) qkv_x
      in if (\<exists>r \<in> set (q @ k @ v). length r \<noteq> n_heads cfg * d_head cfg) then Inl EinopsError
         else
           let head = (\<lambda>h. map (\<lambda>r. take (d_head cfg) (drop (h * d_head cfg) r)));
               ys = map (\<lambda>h. scaled_dot_product_attention (head h q) (head h k) (head h v) None)
                      [0..<n_heads cfg];
               y = map (\<lambda>i. concat (map (\<lambda>yh. yh ! i) ys)) [0..<length x]
           in Inr (map (Linear_forward (proj a)) y))"

subsection \<open>Blocks\<close>

record MLP =
  c_fc :: Linear
  c_proj :: Linear

definition MLP_forward :: "MLP \<Rightarrow> mat \<Rightarrow> mat" where
  "MLP_forward p x = map (\<lambda>r. Linear_forward (c_proj p) (map GELU (Linear_forward (c_fc p) r))) x"

record DiTBlock =
  attn :: Attention
  mlp :: MLP
  adaLN_modulation :: Linear

definition gated_add :: "mat \<Rightarrow> vec \<Rightarrow> mat \<Rightarrow> mat" where
  "gated_add x gate y = map2 (\<lambda>xr yr. map2 (+) xr (map2 (*) gate yr)) x y"

definition DiTBlock_forward ::
  "ArchitectureConfig \<Rightarrow> DiTBlock \<Rightarrow> mat \<Rightarrow> vec \<Rightarrow> bool list list option \<Rightarrow> mat result" where
  "DiTBlock_forward cfg blk x temb attn_mask =
     (case chunk 6 (Linear_forward (adaLN_modulation blk) (map SiLU temb)) of
        [shift_msa, scale_msa, gate_msa, shift_mlp, scale_mlp, gate_mlp] \<Rightarrow>
          bindE (Attention_forward cfg (attn blk)
                   (modulate (map (LayerNorm (layer_norm_eps cfg)) x) shift_msa scale_msa) attn_mask)
            (\<lambda>y. let x1 = gated_add x gate_msa y
                  in Inr (gated_add x1 gate_mlp
                       (MLP_forward (mlp blk)
                          (modulate (map (LayerNorm (layer_norm_eps cfg)) x1) shift_mlp scale_mlp))))
      | _ \<Rightarrow> Inl ValueError)"

record FinalLayer =
  adaLN_modulation_final :: Linear
  mean_linear :: Linear
  sigma_linear :: "Linear option"

definition FinalLayer_forward ::
  "ArchitectureConfig \<Rightarrow> FinalLayer \<Rightarrow> mat \<Rightarrow> vec \<Rightarrow> (mat \<times> mat option) result" where
  "FinalLayer_forward cfg f x temb =
     (case chunk 2 (Linear_forward (adaLN_modulation_final f) (map SiLU temb)) of
        [shift, scale] \<Rightarrow>
          (let x' = modulate (map (LayerNorm (1 / 1000000)) x) shift scale
           in if \<not> learn_sigma cfg then Inr (map (Linear_forward (mean_linear f)) x', None)
              else (case sigma_linear f of
                      None \<Rightarrow> Inl AttributeError
                    | Some sl \<Rightarrow> Inr (map (Linear_forward (mean_linear f)) x',
                                     Some (map (Linear_forward sl) x'))))
      | _ \<Rightarrow> Inl ValueError)"

subsection \<open>The model\<close>

record DiT =
  config :: ArchitectureConfig
  x_embedder :: Linear
  t_embedder :: TimestepEmbedder
  pos_embed :: mat
  blocks :: "DiTBlock list"
  final_layer :: FinalLayer

fun blocks_forward ::
  "ArchitectureConfig \<Rightarrow> DiTBlock list \<Rightarrow> mat \<Rightarrow> vec \<Rightarrow> bool list list option \<Rightarrow> mat result" where
  "blocks_forward cfg [] x t attn_mask = Inr x"
| "blocks_forward cfg (blk # blks) x t attn_mask =
     bindE (DiTBlock_forward cfg blk x t attn_mask) (\<lambda>x'. blocks_forward cfg blks x' t attn_mask)"

text \<open>\<^verbatim>\<open>DiT.forward(x, t, attn_mask, eps)\<close> on one batch element.\<close>

definition DiT_forward :: "DiT \<Rightarrow> mat \<Rightarrow> real \<Rightarrow> bool list list option \<Rightarrow> real \<Rightarrow> mat result" where
  "DiT_forward m x t attn_mask eps =
     (let x_in = x;
          h = map2 (map2 (+)) (map (Linear_forward (x_embedder m)) x) (pos_embed m);
          temb = TimestepEmbedder_forward (config m) (t_embedder m) t
      in bindE (blocks_forward (config m) (blocks m) h temb attn_mask) (\<lambda>h'.
         bindE (FinalLayer_forward (config m) (final_layer m) h' temb) (\<lambda>out.
           case out of
             (a, Some b) \<Rightarrow>
               mapE (\<lambda>(xr, ar, br).
                       mapE (\<lambda>(xi, ai, bi). tdiv (xi - ai) (sigmoid bi * (1 - eps * 2) + eps))
                         (zip xr (zip ar br)))
                 (zip x_in (zip a b))
           | (a, None) \<Rightarrow> Inr (map2 (map2 (-)) x_in a))))"

subsection \<open>Initialisation\<close>

definition zero_weight :: "Linear \<Rightarrow> Linear" where
  "zero_weight l = l\<lparr>weight := map (map (\<lambda>w. 0)) (weight l)\<rparr>"

definition zero_bias :: "Linear \<Rightarrow> Linear" where
  "zero_bias l = l\<lparr>bias := map_option (map (\<lambda>b. 0)) (bias l)\<rparr>"



subsection \<open>Shapes\<close>

text \<open>The shapes the constructors give: \<^verbatim>\<open>nn.Linear(n_in, n_out)\<close>, and the modules of
  \<^verbatim>\<open>DiT.__init__\<close> for a configuration with \<open>d_model = n_heads * d_head\<close>.\<close>

definition Linear_shape :: "Linear \<Rightarrow> nat \<Rightarrow> nat \<Rightarrow> bool" where
  "Linear_shape l n_in n_out \<longleftrightarrow>
     length (weight l) = n_out \<and> (\<forall>row \<in> set (weight l). length row = n_in)
     \<and> (case bias l of None \<Rightarrow> True | Some b \<Rightarrow> length b = n_out)"



subsection \<open>A small model\<close>





text \<open>An attention module of width 1 with one head: queries and keys are 0, the value is the
  input, the output projection is the identity.\<close>

definition unit_attention_config :: ArchitectureConfig where
  "unit_attention_config =
     \<lparr>input_dim = 1, learn_sigma = False, d_model = 1, layer_norm_eps = 1 / 1000000,
      seq_len = 2, d_head = 1, n_heads = 1, n_layers = 1, qkv_bias = True,
      attn_proj_bias = True, dropout = 0, mlp_ratio = 1, mlp_bias = True,
      frequency_embedding_size = 2, learned_pos_embed = False\<rparr>"

definition unit_attention :: Attention where
  "unit_attention =
     \<lparr>qkv = \<lparr>weight = [[0], [0], [1]], bias = Some [0, 0, 0]\<rparr>,
      proj = \<lparr>weight = [[1]], bias = Some [0]\<rparr>\<rparr>"

section \<open>Basic facts\<close>

lemma bindE_Inr [simp]: "bindE (Inr v) f = f v"
  by (simp add: bindE_def)

lemma bindE_Inl [simp]: "bindE (Inl e) f = Inl e"
  by (simp add: bindE_def)

lemma clamp_bounds: "lo \<le> hi \<Longrightarrow> lo \<le> clamp x lo hi \<and> clamp x lo hi \<le> hi"
  by (simp add: clamp_def)

lemma clamp_mono: "x \<le> y \<Longrightarrow> clamp x lo hi \<le> clamp y lo hi"
  by (simp add: clamp_def)

lemma tpow_nonneg: "0 \<le> b \<Longrightarrow> 0 < e \<Longrightarrow> tpow b e = Inr (b powr e)"
  by (auto simp: tpow_def)

lemma warp_range:
  assumes "0 \<le> sc" "0 \<le> t" "t \<le> 1"
  shows "0 \<le> warp sc t \<and> warp sc t \<le> 1"
  using assms by (auto simp: warp_def intro: powr_le1)

lemma warp_mono:
  assumes "0 \<le> sc" "0 \<le> t1" "t1 \<le> t2" "t2 \<le> 1"
  shows "warp sc t1 \<le> warp sc t2"
  using assms by (auto simp: warp_def intro!: powr_mono2)

lemma warp_strict:
  assumes "0 < sc" "0 \<le> t1" "t1 < t2" "t2 \<le> 1"
  shows "warp sc t1 < warp sc t2"
  using assms by (auto simp: warp_def intro!: powr_less_mono2)

lemma Diffuzz_init_continuous:
  assumes "Diffuzz_init s0 None sc cr = Inr d" "0 \<le> s0" "0 \<le> sc"
  shows "continuous d \<and> clamp_range d = cr"
  using assms by (auto simp: Diffuzz_init_def tdiv_def continuous_def angle_def split: if_splits)

lemma Diffuzz_init_total:
  assumes "0 \<le> s0"
  shows "\<exists>d. Diffuzz_init s0 None sc cr = Inr d"
  using assms by (auto simp: Diffuzz_init_def tdiv_def)

lemma unit_times_half_pi:
  assumes "0 \<le> (q::real)" "q \<le> 1"
  shows "0 \<le> q * (pi / 2)" "q * (pi / 2) \<le> pi / 2"
proof -
  show "0 \<le> q * (pi / 2)" using assms by (intro mult_nonneg_nonneg) simp_all
  have "q * (pi / 2) \<le> 1 * (pi / 2)" using assms by (intro mult_right_mono) simp_all
  then show "q * (pi / 2) \<le> pi / 2" by simp
qed

lemma angle_range:
  assumes "0 \<le> s0" "0 \<le> w" "w \<le> 1"
  shows "0 \<le> angle s0 w" "angle s0 w \<le> pi / 2"
proof -
  have "0 \<le> (w + s0) / (1 + s0)" "(w + s0) / (1 + s0) \<le> 1"
    using assms by (auto simp: field_simps)
  then show "0 \<le> angle s0 w" "angle s0 w \<le> pi / 2"
    unfolding angle_def by (rule unit_times_half_pi)+
qed

lemma angle_mono:
  assumes "0 \<le> s0" "w1 \<le> w2"
  shows "angle s0 w1 \<le> angle s0 w2"
  unfolding angle_def using assms
  by (intro mult_right_mono divide_right_mono) simp_all

lemma angle_strict:
  assumes "0 \<le> s0" "w1 < w2"
  shows "angle s0 w1 < angle s0 w2"
  unfolding angle_def using assms
  by (intro mult_strict_right_mono divide_strict_right_mono) simp_all

lemma angle_zero_less:
  assumes "0 \<le> s0"
  shows "angle s0 0 < pi / 2"
proof -
  have "s0 / (1 + s0) < 1" using assms by (simp add: field_simps)
  then have "s0 / (1 + s0) * (pi / 2) < 1 * (pi / 2)"
    by (intro mult_strict_right_mono) simp_all
  then show ?thesis by (simp add: angle_def)
qed

lemma init_pos:
  assumes "continuous d"
  shows "0 < init_alpha_cumprod d" "init_alpha_cumprod d \<le> 1"
proof -
  have s0: "0 \<le> s d" using assms by (simp add: continuous_def)
  have "0 \<le> angle (s d) 0" using angle_range(1)[OF s0, of 0] by simp
  then have "0 < cos (angle (s d) 0)"
    using angle_zero_less[OF s0] by (intro cos_gt_zero_pi) linarith+
  moreover have "cos (angle (s d) 0) \<le> 1" by simp
  ultimately show "0 < init_alpha_cumprod d" "init_alpha_cumprod d \<le> 1"
    using assms by (auto simp: continuous_def power_le_one_iff)
qed

lemma alpha_cumprod_continuous:
  assumes "continuous d" "0 \<le> t" "t \<le> 1"
  shows "alpha_cumprod d t = Inr (clamp (level d t) (fst (clamp_range d)) (snd (clamp_range d)))"
proof -
  let ?w = "warp (scaler d) t"
  have s0: "0 \<le> s d" using assms by (simp add: continuous_def)
  have w: "0 \<le> ?w" "?w \<le> 1"
    using warp_range[of "scaler d" t] assms by (auto simp: continuous_def)
  have resc: "(if scaler d > 1 then bindE (tpow (1 - t) (scaler d)) (\<lambda>p. Inr (1 - p))
                 else if scaler d < 1 then tpow t (scaler d)
                 else Inr t) = Inr ?w"
    using assms by (auto simp: warp_def tpow_nonneg continuous_def) (auto simp: tpow_def)
  have s1: "1 + s d \<noteq> 0" using s0 by simp
  have c0: "0 \<le> cos (angle (s d) ?w)"
    using angle_range[OF s0 w] by (intro cos_ge_zero) linarith+
  have cl: "clamp (cos (angle (s d) ?w)) 0 1 = cos (angle (s d) ?w)"
    using c0 by (simp add: clamp_def)
  have i0: "init_alpha_cumprod d \<noteq> 0" using init_pos[OF assms(1)] by simp
  have q: "(?w + s d) / (1 + s d) * pi * 0.5 = angle (s d) ?w"
    by (simp add: angle_def)
  have "alpha_cumprod d t =
          bindE (tdiv (?w + s d) (1 + s d)) (\<lambda>q.
          bindE (tdiv ((clamp (cos (q * pi * 0.5)) 0 1)\<^sup>2) (init_alpha_cumprod d)) (\<lambda>a.
          Inr (clamp a (fst (clamp_range d)) (snd (clamp_range d)))))"
    using assms(1) resc by (simp add: alpha_cumprod_def continuous_def)
  also have "\<dots> = Inr (clamp (level d t) (fst (clamp_range d)) (snd (clamp_range d)))"
    using s1 i0 by (simp only: tdiv_def if_False bindE_Inr q cl level_def)
  finally show ?thesis .
qed

lemma level_mono:
  assumes "continuous d" "0 \<le> t1" "t1 \<le> t2" "t2 \<le> 1"
  shows "level d t2 \<le> level d t1"
proof -
  have s0: "0 \<le> s d" and sc: "0 \<le> scaler d" using assms by (simp_all add: continuous_def)
  let ?w1 = "warp (scaler d) t1" and ?w2 = "warp (scaler d) t2"
  have w: "0 \<le> ?w1" "?w1 \<le> ?w2" "?w2 \<le> 1"
    using warp_range[OF sc, of t1] warp_range[OF sc, of t2] warp_mono[OF sc assms(2,3,4)] assms
    by auto
  have a: "0 \<le> angle (s d) ?w1" "angle (s d) ?w1 \<le> angle (s d) ?w2" "angle (s d) ?w2 \<le> pi / 2"
    using angle_range[OF s0, of ?w1] angle_range[OF s0, of ?w2] angle_mono[OF s0 w(2)] w by auto
  have "cos (angle (s d) ?w2) \<le> cos (angle (s d) ?w1)"
    using a by (intro cos_monotone_0_pi_le) (use pi_gt_zero in linarith)+
  moreover have "0 \<le> cos (angle (s d) ?w2)"
    using a by (intro cos_ge_zero) linarith+
  ultimately have "(cos (angle (s d) ?w2))\<^sup>2 \<le> (cos (angle (s d) ?w1))\<^sup>2"
    by (intro power_mono)
  then show ?thesis
    unfolding level_def using init_pos[OF assms(1)] by (intro divide_right_mono) simp_all
qed

lemma level_strict:
  assumes "continuous d" "0 < scaler d" "0 \<le> t1" "t1 < t2" "t2 \<le> 1"
  shows "level d t2 < level d t1"
proof -
  have s0: "0 \<le> s d" and sc: "0 \<le> scaler d" using assms by (simp_all add: continuous_def)
  let ?w1 = "warp (scaler d) t1" and ?w2 = "warp (scaler d) t2"
  have w: "0 \<le> ?w1" "?w1 < ?w2" "?w2 \<le> 1"
    using warp_range[OF sc, of t1] warp_range[OF sc, of t2] warp_strict[OF assms(2,3,4,5)] assms
    by auto
  have a: "0 \<le> angle (s d) ?w1" "angle (s d) ?w1 < angle (s d) ?w2" "angle (s d) ?w2 \<le> pi / 2"
    using angle_range[OF s0, of ?w1] angle_range[OF s0, of ?w2] angle_strict[OF s0 w(2)] w by auto
  have "cos (angle (s d) ?w2) < cos (angle (s d) ?w1)"
    using a by (intro cos_monotone_0_pi) (use pi_gt_zero in linarith)+
  moreover have "0 \<le> cos (angle (s d) ?w2)"
    using a by (intro cos_ge_zero) linarith+
  ultimately have "(cos (angle (s d) ?w2))\<^sup>2 < (cos (angle (s d) ?w1))\<^sup>2"
    by (intro power_strict_mono) simp_all
  then show ?thesis
    unfolding level_def using init_pos[OF assms(1)] by (intro divide_strict_right_mono) simp_all
qed


section \<open>The step schedule \<open>ays\<close>\<close>

text \<open>
  C7. With \<^verbatim>\<open>steps="ays"\<close> the schedule expression reads the global name \<^verbatim>\<open>math\<close>, which
  \<^verbatim>\<open>diffusion.py\<close> never imports: whatever the other arguments are, \<open>sample\<close> raises
  NameError before a schedule exists, so no tangent-interpolated schedule is built and the
  loop never runs.
\<close>

theorem sample_ays_NameError:
  "sample d g model sh msk t_start t_end timesteps x_init smp ''ays'' = Inl (NameError ''math'')"
  by (simp add: sample_def r_range_def global_name_def module_globals_def)

section \<open>Forward diffusion and sampler steps are defined on a clamped schedule\<close>

lemma mapE_Inr:
  assumes "\<And>a. a \<in> set xs \<Longrightarrow> f a = Inr (h a)"
  shows "mapE f xs = Inr (map h xs)"
  using assms by (induction xs) simp_all

lemma mapE_pure: "mapE (\<lambda>a. Inr (h a)) xs = Inr (map h xs)"
  by (induction xs) simp_all

lemma alpha_cumprod_in_range:
  assumes "continuous d" "fst (clamp_range d) \<le> snd (clamp_range d)" "0 \<le> t" "t \<le> 1"
  shows "\<exists>a. alpha_cumprod d t = Inr a \<and> fst (clamp_range d) \<le> a \<and> a \<le> snd (clamp_range d)"
  using alpha_cumprod_continuous[OF assms(1,3,4)] clamp_bounds[OF assms(2)] by simp

lemma alpha_cumprod_antimono:
  assumes "continuous d" "0 \<le> t1" "t1 \<le> t2" "t2 \<le> 1"
    and "alpha_cumprod d t1 = Inr a1" "alpha_cumprod d t2 = Inr a2"
  shows "a2 \<le> a1"
proof -
  have "a1 = clamp (level d t1) (fst (clamp_range d)) (snd (clamp_range d))"
    using alpha_cumprod_continuous[OF assms(1), of t1] assms by simp
  moreover have "a2 = clamp (level d t2) (fst (clamp_range d)) (snd (clamp_range d))"
    using alpha_cumprod_continuous[OF assms(1), of t2] assms by simp
  ultimately show ?thesis
    using clamp_mono[OF level_mono[OF assms(1-4)]] by simp
qed

lemma diffuse1_total:
  assumes "alpha_cumprod d t = Inr a" "0 < a" "a \<le> 1"
  shows "diffuse1 d x t noise = Inr (map2 (\<lambda>xi ni. sqrt a * xi + sqrt (1 - a) * ni) x noise)"
  using assms by (simp add: diffuse1_def tsqrt_def)

lemma DDIM_x0_total:
  assumes "0 < a" "a \<le> 1"
  shows "DDIM_x0 a x noise = Inr (map (\<lambda>(xi, ni). (xi - sqrt (1 - a) * ni) / sqrt a) (zip x noise))"
proof -
  have "mapE (\<lambda>(xi, ni). tdiv (xi - sqrt (1 - a) * ni) (sqrt a)) (zip x noise)
        = Inr (map (\<lambda>(xi, ni). (xi - sqrt (1 - a) * ni) / sqrt a) (zip x noise))"
    using assms by (intro mapE_Inr) (auto simp: tdiv_def)
  then show ?thesis using assms by (simp add: DDIM_x0_def tsqrt_def)
qed

lemma DDIM_step1_total:
  assumes "alpha_cumprod d t = Inr a" "0 < a" "a < 1"
    and "alpha_cumprod d t_prev = Inr b" "0 < b" "b < 1"
  shows "\<exists>y. DDIM_step1 d x t t_prev noise = Inr y"
  using assms by (simp add: DDIM_step1_def DDIM_x0_total tsqrt_def)

lemma DDPM_step1_cases:
  assumes "alpha_cumprod d t = Inr a" "0 < a" "a < 1"
    and "alpha_cumprod d t_prev = Inr b" "0 < b" "b < 1"
  shows "DDPM_step1 d x t t_prev noise z =
          (if a \<le> b then
             Inr (map2 (\<lambda>mi si. mi + si * (if t_prev \<noteq> 0 then 1 else 0))
                    (map2 (\<lambda>xi wi. sqrt (1 / (a / b)) * (xi - wi)) x
                       (map (\<lambda>ni. (1 - a / b) * ni / sqrt (1 - a)) noise))
                    (map2 (\<lambda>_ zi. sqrt ((1 - a / b) * (1 - b) / (1 - a)) * zi)
                       (map2 (\<lambda>xi wi. sqrt (1 / (a / b)) * (xi - wi)) x
                          (map (\<lambda>ni. (1 - a / b) * ni / sqrt (1 - a)) noise)) z))
           else Inl NonFinite)"
proof -
  have v: "(1 - a / b) * (1 - b) / (1 - a) < 0 \<longleftrightarrow> \<not> a \<le> b"
  proof -
    have "(1 - a / b) * (1 - b) / (1 - a) < 0 \<longleftrightarrow> (1 - a / b) < 0"
      using assms by (simp add: divide_less_0_iff mult_less_0_iff)
    also have "\<dots> \<longleftrightarrow> \<not> a \<le> b" using assms by (auto simp: field_simps)
    finally show ?thesis .
  qed
  have na: "\<not> (1 / (a / b) < 0)" using assms by (simp add: not_less)
  have sb: "sqrt (1 - a) \<noteq> 0" "\<not> 1 - a < 0" "1 - a \<noteq> 0" "a / b \<noteq> 0"
    using assms by simp_all
  have "DDPM_step1 d x t t_prev noise z =
     bindE (tsqrt ((1 - a / b) * (1 - b) / (1 - a))) (\<lambda>sv.
     let mu = map2 (\<lambda>xi wi. sqrt (1 / (a / b)) * (xi - wi)) x
                (map (\<lambda>ni. (1 - a / b) * ni / sqrt (1 - a)) noise);
         std = map2 (\<lambda>_ zi. sv * zi) mu z
     in Inr (map2 (\<lambda>mi si. mi + si * (if t_prev \<noteq> 0 then 1 else 0)) mu std))"
    unfolding DDPM_step1_def assms(1,4) bindE_Inr tdiv_def tsqrt_def if_not_P[OF sb(1)]
      if_not_P[OF sb(2)] if_not_P[OF sb(3)] if_not_P[OF sb(4)] if_not_P[OF na]
      if_not_P[OF less_imp_neq[OF assms(5), symmetric]] mapE_pure ..
  then show ?thesis
    by (simp add: tsqrt_def v Let_def)
qed


lemma Diffuzz_init_default:
  "Diffuzz_init (8 / 1000) None 1 (1 / 10000, 9999 / 10000) = Inr default_Diffuzz"
  by (simp add: Diffuzz_init_def tdiv_def default_Diffuzz_def angle_def)

lemma p2_weight_no_zero_divisor:
  assumes "alpha_cumprod d t = Inr a" "0 < a" "a < 1"
  shows "p2_weight d t k gamma \<noteq> Inl ZeroDivisor"
  using assms by (simp add: p2_weight_def tdiv_def tpow_def)

text \<open>
  C4. For a schedule built without a cache, with offset and scaler not negative and a clamp
  range \<open>0 < lo \<le> hi < 1\<close>, and for every t in [0,1] (0 and 1 included):
  \<open>alpha_cumprod\<close> returns a value in [lo, hi], hence strictly between 0 and 1; the forward
  diffusion and the deterministic step return a value; the ancestral step and the loss
  weight never meet a zero divisor (the ancestral step returns a value whenever
  \<open>t_prev \<le> t\<close>; for \<open>t_prev > t\<close> its variance term can be the root of a
  negative number, which is not a division).
\<close>

theorem clamp_keeps_divisors_nonzero:
  assumes init: "Diffuzz_init s0 None sc (lo, hi) = Inr d"
    and cfg: "0 \<le> s0" "0 \<le> sc" "0 < lo" "lo \<le> hi" "hi < 1"
    and t: "0 \<le> t" "t \<le> 1" and tp: "0 \<le> t_prev" "t_prev \<le> 1"
  shows "(\<exists>a. alpha_cumprod d t = Inr a \<and> lo \<le> a \<and> a \<le> hi \<and> 0 < a \<and> a < 1)
       \<and> (\<exists>y. diffuse1 d x t noise = Inr y)
       \<and> DDPM_step1 d x t t_prev noise z \<noteq> Inl ZeroDivisor
       \<and> (t_prev \<le> t \<longrightarrow> (\<exists>y. DDPM_step1 d x t t_prev noise z = Inr y))
       \<and> (\<exists>y. DDIM_step1 d x t t_prev noise = Inr y)
       \<and> p2_weight d t k gamma \<noteq> Inl ZeroDivisor"
proof -
  have c: "continuous d" and r: "clamp_range d = (lo, hi)"
    using Diffuzz_init_continuous[OF init cfg(1,2)] by simp_all
  have lh: "fst (clamp_range d) \<le> snd (clamp_range d)" using r cfg by simp
  obtain a where a: "alpha_cumprod d t = Inr a" "lo \<le> a" "a \<le> hi"
    using alpha_cumprod_in_range[OF c lh t] r by auto
  obtain b where b: "alpha_cumprod d t_prev = Inr b" "lo \<le> b" "b \<le> hi"
    using alpha_cumprod_in_range[OF c lh tp] r by auto
  have a01: "0 < a" "a < 1" and b01: "0 < b" "b < 1" using a b cfg by simp_all
  have 1: "\<exists>a. alpha_cumprod d t = Inr a \<and> lo \<le> a \<and> a \<le> hi \<and> 0 < a \<and> a < 1"
    using a a01 by blast
  have 2: "\<exists>y. diffuse1 d x t noise = Inr y"
    using diffuse1_total[OF a(1) a01(1)] a01(2) by simp
  have st: "DDPM_step1 d x t t_prev noise z =
          (if a \<le> b then
             Inr (map2 (\<lambda>mi si. mi + si * (if t_prev \<noteq> 0 then 1 else 0))
                    (map2 (\<lambda>xi wi. sqrt (1 / (a / b)) * (xi - wi)) x
                       (map (\<lambda>ni. (1 - a / b) * ni / sqrt (1 - a)) noise))
                    (map2 (\<lambda>_ zi. sqrt ((1 - a / b) * (1 - b) / (1 - a)) * zi)
                       (map2 (\<lambda>xi wi. sqrt (1 / (a / b)) * (xi - wi)) x
                          (map (\<lambda>ni. (1 - a / b) * ni / sqrt (1 - a)) noise)) z))
           else Inl NonFinite)"
    by (rule DDPM_step1_cases[OF a(1) a01 b(1) b01])
  have 3: "DDPM_step1 d x t t_prev noise z \<noteq> Inl ZeroDivisor"
    unfolding st by simp
  have 4: "t_prev \<le> t \<longrightarrow> (\<exists>y. DDPM_step1 d x t t_prev noise z = Inr y)"
  proof
    assume "t_prev \<le> t"
    then have "a \<le> b"
      using alpha_cumprod_antimono[OF c tp(1) _ t(2) b(1) a(1)] by simp
    then show "\<exists>y. DDPM_step1 d x t t_prev noise z = Inr y"
      unfolding st by simp
  qed
  have 5: "\<exists>y. DDIM_step1 d x t t_prev noise = Inr y"
    by (rule DDIM_step1_total[OF a(1) a01 b(1) b01])
  have 6: "p2_weight d t k gamma \<noteq> Inl ZeroDivisor"
    by (rule p2_weight_no_zero_divisor[OF a(1) a01])
  from 1 2 3 4 5 6 show ?thesis by blast
qed

theorem clamp_keeps_divisors_nonzero_witness:
  "Diffuzz_init (8 / 1000) None 1 (1 / 10000, 9999 / 10000) = Inr default_Diffuzz
   \<and> (\<exists>a. alpha_cumprod default_Diffuzz 1 = Inr a \<and> 1 / 10000 \<le> a \<and> a \<le> 9999 / 10000 \<and> 0 < a \<and> a < 1)
   \<and> (\<exists>y. diffuse1 default_Diffuzz [1] 1 [1] = Inr y)
   \<and> DDPM_step1 default_Diffuzz [1] 1 0 [1] [1] \<noteq> Inl ZeroDivisor
   \<and> (\<exists>y. DDPM_step1 default_Diffuzz [1] 1 0 [1] [1] = Inr y)
   \<and> (\<exists>y. DDIM_step1 default_Diffuzz [1] 1 0 [1] = Inr y)
   \<and> p2_weight default_Diffuzz 1 1 1 \<noteq> Inl ZeroDivisor"
  using clamp_keeps_divisors_nonzero[OF Diffuzz_init_default, of 1 0 "[1]" "[1]" "[1]" 1 1]
    Diffuzz_init_default
  by simp

section \<open>Monotonicity of the schedule and the clamp\<close>

lemma default_continuous: "continuous default_Diffuzz"
  by (simp add: continuous_def default_Diffuzz_def)

lemma default_init_ge_quarter: "1 / 4 \<le> init_alpha_cumprod default_Diffuzz"
proof -
  have "angle (8 / 1000) 0 = 8 / 1008 * (pi / 2)" by (simp add: angle_def)
  also have "\<dots> \<le> pi / 3" using pi_gt_zero by (simp add: field_simps)
  finally have a: "angle (8 / 1000) 0 \<le> pi / 3" .
  have a0: "0 \<le> angle (8 / 1000) 0" using angle_range(1)[of "8 / 1000" 0] by simp
  have "cos (pi / 3) \<le> cos (angle (8 / 1000) 0)"
    using a a0 pi_gt_zero by (intro cos_monotone_0_pi_le) simp_all
  then have "1 / 2 \<le> cos (angle (8 / 1000) 0)" by (simp add: cos_60)
  then have "(1 / 2)\<^sup>2 \<le> (cos (angle (8 / 1000) 0))\<^sup>2" by (intro power_mono) simp_all
  then show ?thesis by (simp add: default_Diffuzz_def power2_eq_square)
qed

lemma default_level_near_one:
  assumes "998 / 1000 \<le> t" "t \<le> 1"
  shows "level default_Diffuzz t \<le> 1 / 10000"
proof -
  define dl where "dl = (1 - t) / (1008 / 1000) * (pi / 2)"
  have dl0: "0 \<le> dl" using assms by (simp add: dl_def)
  have "dl \<le> (2 / 1000) / (1008 / 1000) * (pi / 2)"
    unfolding dl_def using assms by (intro mult_right_mono divide_right_mono) simp_all
  also have "\<dots> \<le> (2 / 1000) / (1008 / 1000) * (4 / 2)"
    using pi_less_4 by (intro mult_left_mono) simp_all
  also have "\<dots> \<le> 4 / 1000" by simp
  finally have dl1: "dl \<le> 4 / 1000" .
  have ang: "angle (8 / 1000) t = pi / 2 - dl"
    by (simp add: angle_def dl_def field_simps)
  have "cos (angle (8 / 1000) t) = sin dl"
    unfolding ang by (simp add: cos_diff)
  moreover have "sin dl \<le> dl" using dl0 by (rule sin_x_le_x)
  moreover have "0 \<le> sin dl"
    using dl0 dl1 pi_ge_two by (intro sin_ge_zero) simp_all
  ultimately have c: "0 \<le> cos (angle (8 / 1000) t)" "cos (angle (8 / 1000) t) \<le> 4 / 1000"
    using dl1 by simp_all
  then have "(cos (angle (8 / 1000) t))\<^sup>2 \<le> (4 / 1000)\<^sup>2" by (intro power_mono) simp_all
  then have n: "(cos (angle (8 / 1000) t))\<^sup>2 \<le> 16 / 1000000" by (simp add: power2_eq_square)
  have i: "1 / 4 \<le> init_alpha_cumprod default_Diffuzz" by (rule default_init_ge_quarter)
  have "level default_Diffuzz t = (cos (angle (8 / 1000) t))\<^sup>2 / init_alpha_cumprod default_Diffuzz"
    by (simp add: level_def default_Diffuzz_def warp_def)
  also have "\<dots> \<le> (16 / 1000000) / (1 / 4)"
    using n i by (intro frac_le) simp_all
  also have "\<dots> \<le> 1 / 10000" by simp
  finally show ?thesis .
qed

lemma default_alpha_near_one:
  assumes "998 / 1000 \<le> t" "t \<le> 1"
  shows "alpha_cumprod default_Diffuzz t = Inr (1 / 10000)"
proof -
  have "alpha_cumprod default_Diffuzz t = Inr (clamp (level default_Diffuzz t) (1 / 10000) (9999 / 10000))"
    using alpha_cumprod_continuous[OF default_continuous, of t] assms
    by (simp add: default_Diffuzz_def)
  then show ?thesis
    using default_level_near_one[OF assms] by (simp add: clamp_def max_def)
qed

text \<open>
  C5, as stated, fails: close to t = 1 the value before the clamp is below the floor, so the
  default schedule is constant there and sits on the bound \<open>1/10000\<close>.
\<close>

theorem alpha_cumprod_flat_at_floor:
  "alpha_cumprod default_Diffuzz (998 / 1000) = Inr (1 / 10000)
   \<and> alpha_cumprod default_Diffuzz (999 / 1000) = Inr (1 / 10000)
   \<and> fst (clamp_range default_Diffuzz) = 1 / 10000"
  using default_alpha_near_one[of "998 / 1000"] default_alpha_near_one[of "999 / 1000"]
  by (simp add: default_Diffuzz_def)

text \<open>
  C5, amended. For a schedule built without a cache (offset and scaler not negative, clamp
  range \<open>lo \<le> hi\<close>) and \<open>t1 < t2\<close> in (0,1): both values exist and lie in the closed range
  [lo, hi], the later one is not larger, and for a positive scaler it is strictly smaller
  whenever the clamp is not active (\<open>lo < alpha_cumprod t2\<close> and
  \<open>alpha_cumprod t1 < hi\<close>).
\<close>

theorem alpha_cumprod_monotone:
  assumes init: "Diffuzz_init s0 None sc (lo, hi) = Inr d"
    and cfg: "0 \<le> s0" "0 \<le> sc" "lo \<le> hi"
    and t: "0 < t1" "t1 < t2" "t2 < 1"
  shows "\<exists>a1 a2. alpha_cumprod d t1 = Inr a1 \<and> alpha_cumprod d t2 = Inr a2
           \<and> lo \<le> a2 \<and> a2 \<le> a1 \<and> a1 \<le> hi
           \<and> (0 < sc \<and> lo < a2 \<and> a1 < hi \<longrightarrow> a2 < a1)"
proof -
  have c: "continuous d" and r: "clamp_range d = (lo, hi)"
    using Diffuzz_init_continuous[OF init cfg(1,2)] by simp_all
  let ?a1 = "clamp (level d t1) lo hi" and ?a2 = "clamp (level d t2) lo hi"
  have e1: "alpha_cumprod d t1 = Inr ?a1"
    using alpha_cumprod_continuous[OF c, of t1] t r by simp
  have e2: "alpha_cumprod d t2 = Inr ?a2"
    using alpha_cumprod_continuous[OF c, of t2] t r by simp
  have m: "level d t2 \<le> level d t1"
    using level_mono[OF c, of t1 t2] t by simp
  have le: "?a2 \<le> ?a1" by (rule clamp_mono[OF m])
  have b: "lo \<le> ?a2" "?a1 \<le> hi" using clamp_bounds[OF cfg(3)] by simp_all
  have strict: "?a2 < ?a1" if h: "0 < sc" "lo < ?a2" "?a1 < hi"
  proof -
    have "scaler d = sc" using init by (auto simp: Diffuzz_init_def tdiv_def split: if_splits)
    then have "level d t2 < level d t1"
      using level_strict[OF c _ _ t(2)] t h(1) by simp
    then show ?thesis using h cfg(3) by (auto simp: clamp_def max_def min_def split: if_splits)
  qed
  show ?thesis using e1 e2 le b strict by blast
qed

lemma default_init_ge_three_quarters: "3 / 4 \<le> init_alpha_cumprod default_Diffuzz"
proof -
  have "angle (8 / 1000) 0 = 8 / 1008 * (pi / 2)" by (simp add: angle_def)
  also have "\<dots> \<le> pi / 6" using pi_gt_zero by (simp add: field_simps)
  finally have a: "angle (8 / 1000) 0 \<le> pi / 6" .
  have a0: "0 \<le> angle (8 / 1000) 0" using angle_range(1)[of "8 / 1000" 0] by simp
  have "cos (pi / 6) \<le> cos (angle (8 / 1000) 0)"
    using a a0 pi_gt_zero by (intro cos_monotone_0_pi_le) simp_all
  then have "sqrt 3 / 2 \<le> cos (angle (8 / 1000) 0)" by (simp add: cos_30)
  then have "(sqrt 3 / 2)\<^sup>2 \<le> (cos (angle (8 / 1000) 0))\<^sup>2" by (intro power_mono) simp_all
  then show ?thesis by (simp add: default_Diffuzz_def power2_eq_square)
qed

lemma default_level_half: "level default_Diffuzz (1 / 2) \<le> 2 / 3"
proof -
  have "pi / 4 = (1 / 2) * (pi / 2)" by simp
  also have "\<dots> \<le> (508 / 1008) * (pi / 2)" by (intro mult_right_mono) simp_all
  also have "\<dots> = angle (8 / 1000) (1 / 2)" by (simp add: angle_def)
  finally have a: "pi / 4 \<le> angle (8 / 1000) (1 / 2)" .
  have a1: "angle (8 / 1000) (1 / 2) \<le> pi / 2" "0 \<le> angle (8 / 1000) (1 / 2)"
    using angle_range[of "8 / 1000" "1 / 2"] by simp_all
  have "cos (angle (8 / 1000) (1 / 2)) \<le> cos (pi / 4)"
    using a a1 pi_gt_zero by (intro cos_monotone_0_pi_le) simp_all
  then have c: "cos (angle (8 / 1000) (1 / 2)) \<le> sqrt 2 / 2" by (simp add: cos_45)
  have c0: "0 \<le> cos (angle (8 / 1000) (1 / 2))"
    using a1 by (intro cos_ge_zero) linarith+
  have "(cos (angle (8 / 1000) (1 / 2)))\<^sup>2 \<le> (sqrt 2 / 2)\<^sup>2"
    using c c0 by (intro power_mono) simp_all
  then have n: "(cos (angle (8 / 1000) (1 / 2)))\<^sup>2 \<le> 1 / 2" by (simp add: power2_eq_square)
  have "level default_Diffuzz (1 / 2)
        = (cos (angle (8 / 1000) (1 / 2)))\<^sup>2 / init_alpha_cumprod default_Diffuzz"
    by (simp add: level_def default_Diffuzz_def warp_def)
  also have "\<dots> \<le> (1 / 2) / (3 / 4)"
    using n default_init_ge_three_quarters by (intro frac_le) simp_all
  finally show ?thesis by simp
qed

lemma default_level_ge_quarter:
  assumes "0 \<le> t" "t \<le> 6 / 10"
  shows "1 / 4 \<le> level default_Diffuzz t"
proof -
  have "angle (8 / 1000) t \<le> angle (8 / 1000) (6 / 10)"
    using assms by (intro angle_mono) simp_all
  also have "\<dots> = (608 / 1008) * (pi / 2)" by (simp add: angle_def)
  also have "\<dots> \<le> (2 / 3) * (pi / 2)" by (intro mult_right_mono) simp_all
  finally have a: "angle (8 / 1000) t \<le> pi / 3" by simp
  have a0: "0 \<le> angle (8 / 1000) t" using angle_range(1)[of "8 / 1000" t] assms by simp
  have "cos (pi / 3) \<le> cos (angle (8 / 1000) t)"
    using a a0 pi_gt_zero by (intro cos_monotone_0_pi_le) simp_all
  then have "1 / 2 \<le> cos (angle (8 / 1000) t)" by (simp add: cos_60)
  then have "(1 / 2)\<^sup>2 \<le> (cos (angle (8 / 1000) t))\<^sup>2" by (intro power_mono) simp_all
  then have n: "1 / 4 \<le> (cos (angle (8 / 1000) t))\<^sup>2" by (simp add: power2_eq_square)
  have i: "0 < init_alpha_cumprod default_Diffuzz" "init_alpha_cumprod default_Diffuzz \<le> 1"
    using init_pos[OF default_continuous] by simp_all
  have "1 / 4 \<le> (cos (angle (8 / 1000) t))\<^sup>2 / 1" using n by simp
  also have "\<dots> \<le> (cos (angle (8 / 1000) t))\<^sup>2 / init_alpha_cumprod default_Diffuzz"
    using i by (intro divide_left_mono) simp_all
  also have "\<dots> = level default_Diffuzz t"
    by (simp add: level_def default_Diffuzz_def warp_def)
  finally show ?thesis .
qed

lemma default_alpha: 
  assumes "0 \<le> t" "t \<le> 1"
  shows "alpha_cumprod default_Diffuzz t
         = Inr (clamp (level default_Diffuzz t) (1 / 10000) (9999 / 10000))"
  using alpha_cumprod_continuous[OF default_continuous assms] by (simp add: default_Diffuzz_def)

theorem alpha_cumprod_monotone_witness:
  "Diffuzz_init (8 / 1000) None 1 (1 / 10000, 9999 / 10000) = Inr default_Diffuzz
   \<and> (\<exists>a1 a2. alpha_cumprod default_Diffuzz (1 / 2) = Inr a1
          \<and> alpha_cumprod default_Diffuzz (6 / 10) = Inr a2
          \<and> 1 / 10000 < a2 \<and> a2 < a1 \<and> a1 < 9999 / 10000)"
proof -
  obtain a1 a2 where h: "alpha_cumprod default_Diffuzz (1 / 2) = Inr a1"
      "alpha_cumprod default_Diffuzz (6 / 10) = Inr a2"
      "(0::real) < 1 \<and> 1 / 10000 < a2 \<and> a1 < 9999 / 10000 \<longrightarrow> a2 < a1"
    using alpha_cumprod_monotone[OF Diffuzz_init_default, of "1 / 2" "6 / 10"] by auto
  have "a1 = clamp (level default_Diffuzz (1 / 2)) (1 / 10000) (9999 / 10000)"
    using h(1) default_alpha[of "1 / 2"] by simp
  then have u: "a1 < 9999 / 10000"
    using default_level_half by (simp add: clamp_def max_def min_def)
  have "a2 = clamp (level default_Diffuzz (6 / 10)) (1 / 10000) (9999 / 10000)"
    using h(2) default_alpha[of "6 / 10"] by simp
  then have l: "1 / 10000 < a2"
    using default_level_ge_quarter[of "6 / 10"] by (simp add: clamp_def max_def min_def)
  show ?thesis using h u l Diffuzz_init_default by auto
qed

section \<open>The cached schedule\<close>

lemma linspace_unit_range:
  assumes "x \<in> set (linspace 0 1 K)"
  shows "0 \<le> x \<and> x \<le> 1"
proof (cases "K = 1")
  case True
  then show ?thesis using assms by (simp add: linspace_def)
next
  case False
  then obtain i where i: "i < K" "x = real i / real (K - 1)"
    using assms by (auto simp: linspace_def)
  have k: "i \<le> K - 1" "0 < K - 1" using i(1) False by linarith+
  have "0 \<le> real i / real (K - 1)" by (rule divide_nonneg_nonneg) simp_all
  moreover have "real i / real (K - 1) \<le> 1"
    unfolding divide_le_eq_1 using k by (simp del: of_nat_diff)
  ultimately show ?thesis unfolding i(2) by blast
qed

lemma length_linspace: "length (linspace a b K) = K"
  by (simp add: linspace_def)

lemma Diffuzz_init_cached:
  assumes "Diffuzz_init s0 None sc cr = Inr d0" "0 \<le> s0" "0 \<le> sc"
  shows "mapE (alpha_cumprod d0) (linspace 0 1 K)
           = Inr (map (\<lambda>t. clamp (level d0 t) (fst cr) (snd cr)) (linspace 0 1 K))"
    and "Diffuzz_init s0 (Some K) sc cr
           = Inr (d0\<lparr>cached_steps :=
                    Some (map (\<lambda>t. clamp (level d0 t) (fst cr) (snd cr)) (linspace 0 1 K))\<rparr>)"
proof -
  have c: "continuous d0" and r: "clamp_range d0 = cr"
    using Diffuzz_init_continuous[OF assms] by simp_all
  show m: "mapE (alpha_cumprod d0) (linspace 0 1 K)
           = Inr (map (\<lambda>t. clamp (level d0 t) (fst cr) (snd cr)) (linspace 0 1 K))"
    using alpha_cumprod_continuous[OF c] linspace_unit_range[of _ K] r
    by (intro mapE_Inr) simp
  have "1 + s0 \<noteq> 0" using assms(2) by simp
  then show "Diffuzz_init s0 (Some K) sc cr
           = Inr (d0\<lparr>cached_steps :=
                    Some (map (\<lambda>t. clamp (level d0 t) (fst cr) (snd cr)) (linspace 0 1 K))\<rparr>)"
    using assms(1) m by (auto simp: Diffuzz_init_def tdiv_def Let_def)
qed

lemma cached_lookup:
  assumes "cached_steps d = Some cs" "cs \<noteq> []" "0 \<le> t" "t \<le> 1"
  shows "alpha_cumprod d t = Inr (cs ! nat \<lfloor>t * real (length cs - 1)\<rfloor>)"
    and "nat \<lfloor>t * real (length cs - 1)\<rfloor> < length cs"
proof -
  let ?n = "length cs"
  have n: "0 < ?n" using assms(2) by simp
  have "int ?n - 1 = int (?n - 1)" using n by linarith
  then have e: "real_of_int (int ?n - 1) = real (?n - 1)" by (simp only: of_int_of_nat_eq)
  have p: "0 \<le> t * real (?n - 1)" using assms(3) by simp
  have "t * real (?n - 1) \<le> 1 * real (?n - 1)"
    using assms(4) by (intro mult_right_mono) simp_all
  then have "\<lfloor>t * real (?n - 1)\<rfloor> \<le> int (?n - 1)" by (simp add: floor_le_iff)
  moreover have f0: "0 \<le> \<lfloor>t * real (?n - 1)\<rfloor>" using p by simp
  ultimately have b: "\<lfloor>t * real (?n - 1)\<rfloor> < int ?n" using n by linarith
  then show "nat \<lfloor>t * real (?n - 1)\<rfloor> < ?n" using f0 by linarith
  show "alpha_cumprod d t = Inr (cs ! nat \<lfloor>t * real (?n - 1)\<rfloor>)"
    unfolding alpha_cumprod_def assms(1) option.case e long_def tensor_index_def
    using p f0 b by simp
qed

text \<open>
  C6, as stated, fails. With three cached steps and t = 0.9 the product t (K - 1) is 1.8:
  the query returns the cached entry 1 (the value at t = 0.5), not the entry
  \<open>round 1.8 = 2\<close> (the value at t = 1, the nearest grid point).
\<close>

theorem cached3_lookup_not_rounded:
  "Diffuzz_init (8 / 1000) (Some 3) 1 (1 / 10000, 9999 / 10000) = Inr cached3_Diffuzz
   \<and> alpha_cumprod cached3_Diffuzz (9 / 10) = tensor_index (the (cached_steps cached3_Diffuzz)) 1
   \<and> alpha_cumprod cached3_Diffuzz (9 / 10)
       \<noteq> tensor_index (the (cached_steps cached3_Diffuzz)) (round (9 / 10 * real_of_int (int 3 - 1)))"
proof -
  let ?cs = "map (\<lambda>t. clamp (level default_Diffuzz t) (1 / 10000) (9999 / 10000)) (linspace 0 1 3)"
  have i: "Diffuzz_init (8 / 1000) (Some 3) 1 (1 / 10000, 9999 / 10000)
           = Inr (default_Diffuzz\<lparr>cached_steps := Some ?cs\<rparr>)"
    using Diffuzz_init_cached(2)[OF Diffuzz_init_default, of 3] by simp
  then have d: "cached3_Diffuzz = default_Diffuzz\<lparr>cached_steps := Some ?cs\<rparr>"
    by (simp add: cached3_Diffuzz_def)
  have l: "linspace 0 1 3 = [0, 1 / 2, 1]"
    by (simp add: linspace_def numeral_3_eq_3)
  have cs: "cached_steps cached3_Diffuzz = Some ?cs" by (simp add: d)
  have r: "round (9 / 10 * real_of_int (int 3 - 1)) = 2" by (simp add: round_def)
  have f: "nat \<lfloor>(9 / 10 :: real) * real (length ?cs - 1)\<rfloor> = 1"
    by (simp add: length_linspace)
  have q: "alpha_cumprod cached3_Diffuzz (9 / 10) = Inr (?cs ! 1)"
    using cached_lookup(1)[OF cs, of "9 / 10"] f by (simp add: l)
  have v1: "1 / 4 \<le> ?cs ! 1"
    using default_level_ge_quarter[of "1 / 2"] by (simp add: l clamp_def max_def min_def)
  have "level default_Diffuzz 1 \<le> 1 / 10000" by (rule default_level_near_one) simp_all
  then have v2: "?cs ! 2 = 1 / 10000" by (simp add: l clamp_def max_def)
  have t1: "tensor_index ?cs 1 = Inr (?cs ! 1)" by (simp add: tensor_index_def l)
  have t2: "tensor_index ?cs 2 = Inr (?cs ! 2)" by (simp add: tensor_index_def l)
  have ne: "?cs ! 1 \<noteq> ?cs ! 2" using v1 v2 by simp
  show ?thesis
    unfolding cs option.sel r q t1 t2 using i d ne by simp
qed

text \<open>
  C6, amended. A schedule constructed with \<^verbatim>\<open>cache_steps=K\<close>, K at least 1 (offset and scaler
  not negative), precomputes the continuous \<open>alpha_cumprod\<close> over the K evenly spaced points
  \<open>linspace 0 1 K\<close>; every later query with t in [0,1] returns the precomputed value at index
  \<open>\<lfloor>t (K - 1)\<rfloor>\<close>, the truncation of \<open>t (K - 1)\<close>: the value at the nearest grid point at or
  below t.
\<close>

theorem cached_lookup_truncates:
  assumes "Diffuzz_init s0 None sc cr = Inr d0" "0 \<le> s0" "0 \<le> sc"
    and "0 < K" "0 \<le> t" "t \<le> 1"
  shows "\<exists>d cs. Diffuzz_init s0 (Some K) sc cr = Inr d \<and> cached_steps d = Some cs
           \<and> mapE (alpha_cumprod d0) (linspace 0 1 K) = Inr cs \<and> length cs = K
           \<and> nat \<lfloor>t * real (K - 1)\<rfloor> < K
           \<and> alpha_cumprod d t = Inr (cs ! nat \<lfloor>t * real (K - 1)\<rfloor>)
           \<and> alpha_cumprod d t = alpha_cumprod d0 (linspace 0 1 K ! nat \<lfloor>t * real (K - 1)\<rfloor>)"
proof -
  let ?cs = "map (\<lambda>t. clamp (level d0 t) (fst cr) (snd cr)) (linspace 0 1 K)"
  let ?d = "d0\<lparr>cached_steps := Some ?cs\<rparr>"
  let ?i = "nat \<lfloor>t * real (K - 1)\<rfloor>"
  have c: "continuous d0" and r: "clamp_range d0 = cr"
    using Diffuzz_init_continuous[OF assms(1-3)] by simp_all
  have len: "length ?cs = K" by (simp add: length_linspace)
  have ne: "?cs \<noteq> []" using assms(4) len by auto
  have cs: "cached_steps ?d = Some ?cs" by simp
  have q: "alpha_cumprod ?d t = Inr (?cs ! ?i)"
    using cached_lookup(1)[OF cs ne assms(5,6)] unfolding len .
  have b: "?i < K"
    using cached_lookup(2)[OF cs ne assms(5,6)] unfolding len .
  have bl: "?i < length (linspace 0 1 K)" using b unfolding length_linspace .
  have g: "linspace 0 1 K ! ?i \<in> set (linspace 0 1 K)"
    by (rule nth_mem[OF bl])
  have "?cs ! ?i = clamp (level d0 (linspace 0 1 K ! ?i)) (fst cr) (snd cr)"
    by (rule nth_map[OF bl])
  moreover have "alpha_cumprod d0 (linspace 0 1 K ! ?i)
       = Inr (clamp (level d0 (linspace 0 1 K ! ?i)) (fst (clamp_range d0)) (snd (clamp_range d0)))"
    using linspace_unit_range[OF g] by (intro alpha_cumprod_continuous[OF c]) simp_all
  ultimately have "alpha_cumprod d0 (linspace 0 1 K ! ?i) = Inr (?cs ! ?i)"
    unfolding r by simp
  then have q2: "alpha_cumprod ?d t = alpha_cumprod d0 (linspace 0 1 K ! ?i)"
    using q by simp
  have i1: "Diffuzz_init s0 (Some K) sc cr = Inr ?d"
    by (rule Diffuzz_init_cached(2)[OF assms(1-3)])
  have i2: "mapE (alpha_cumprod d0) (linspace 0 1 K) = Inr ?cs"
    by (rule Diffuzz_init_cached(1)[OF assms(1-3)])
  from i1 cs i2 len b q q2 show ?thesis by blast
qed

theorem cached_lookup_truncates_witness:
  "Diffuzz_init (8 / 1000) None 1 (1 / 10000, 9999 / 10000) = Inr default_Diffuzz
   \<and> (\<exists>d cs. Diffuzz_init (8 / 1000) (Some 3) 1 (1 / 10000, 9999 / 10000) = Inr d
         \<and> cached_steps d = Some cs
         \<and> mapE (alpha_cumprod default_Diffuzz) (linspace 0 1 3) = Inr cs \<and> length cs = 3
         \<and> alpha_cumprod d (9 / 10) = Inr (cs ! 1)
         \<and> alpha_cumprod d (9 / 10) = alpha_cumprod default_Diffuzz (1 / 2))"
proof -
  have l: "linspace 0 1 3 = [0, 1 / 2, 1]"
    by (simp add: linspace_def numeral_3_eq_3)
  have f: "nat \<lfloor>(9 / 10 :: real) * real (3 - 1)\<rfloor> = 1" by simp
  show ?thesis
    using cached_lookup_truncates[OF Diffuzz_init_default, of 3 "9 / 10"] Diffuzz_init_default
    unfolding f by (simp add: l)
qed

section \<open>Round trip and the terminal ancestral step\<close>

lemma mapE_Inr_index:
  assumes "\<And>i. i < length xs \<Longrightarrow> f (xs ! i) = Inr (h (xs ! i))"
  shows "mapE f xs = Inr (map h xs)"
  using assms by (intro mapE_Inr) (auto simp: in_set_conv_nth)

lemma randn_like_shape: "map length (fst (randn_like g x)) = map length x"
  by (induction x arbitrary: g) (simp_all add: case_prod_beta Let_def)

lemma randn_like_length: "length (fst (randn_like g x)) = length x"
  using arg_cong[OF randn_like_shape[of g x], of length] by simp

lemma randn_like_row_length:
  assumes "b < length x"
  shows "length (fst (randn_like g x) ! b) = length (x ! b)"
proof -
  have "map length (fst (randn_like g x)) ! b = map length x ! b"
    by (simp only: randn_like_shape)
  then show ?thesis using assms by (simp add: randn_like_length)
qed

lemma roundtrip_row:
  assumes "0 < a" "a \<le> 1" "length noise = length x"
  shows "DDIM_x0 a (map2 (\<lambda>xi ni. sqrt a * xi + sqrt (1 - a) * ni) x noise) noise = Inr x"
proof -
  have sa: "sqrt a \<noteq> 0" using assms(1) by simp
  have "map (\<lambda>(xi, ni). (xi - sqrt (1 - a) * ni) / sqrt a)
          (zip (map2 (\<lambda>xi ni. sqrt a * xi + sqrt (1 - a) * ni) x noise) noise) = x"
    using assms(3) sa
  proof (induction x noise rule: list_induct2')
    case (4 xi xs ni ns)
    then show ?case by simp
  qed simp_all
  then show ?thesis using DDIM_x0_total[OF assms(1,2)] by simp
qed

text \<open>
  C8. For a schedule built without a cache (offset and scaler not negative, clamp range
  \<open>0 < lo \<le> hi \<le> 1\<close>), progress values in [0,1] and a noise tensor of the shape of x:
  \<open>diffuse\<close> returns \<open>x_t\<close> with the supplied noise, and on every batch element the
  reconstruction \<open>x0\<close> of the deterministic sampler, from \<open>x_t\<close>, the same noise and the
  same t, returns x exactly.
\<close>

theorem diffuse_DDIM_x0_roundtrip:
  assumes init: "Diffuzz_init s0 None sc (lo, hi) = Inr d"
    and cfg: "0 \<le> s0" "0 \<le> sc" "0 < lo" "lo \<le> hi" "hi \<le> 1"
    and len: "length t = length x" "length noise = length x"
    and rows: "\<forall>b < length x. length (noise ! b) = length (x ! b)"
    and t: "\<forall>b < length x. 0 \<le> t ! b \<and> t ! b \<le> 1"
  shows "\<exists>x_t. diffuse d g x t (Some noise) = Inr ((x_t, noise), g) \<and> length x_t = length x
           \<and> (\<forall>b < length x. \<exists>ac. alpha_cumprod d (t ! b) = Inr ac
                  \<and> x_t ! b = map2 (\<lambda>xi ni. sqrt ac * xi + sqrt (1 - ac) * ni) (x ! b) (noise ! b)
                  \<and> DDIM_x0 ac (x_t ! b) (noise ! b) = Inr (x ! b))"
proof -
  have c: "continuous d" and r: "clamp_range d = (lo, hi)"
    using Diffuzz_init_continuous[OF init cfg(1,2)] by simp_all
  define A where "A u = clamp (level d u) lo hi" for u
  have A: "alpha_cumprod d u = Inr (A u)" "0 < A u" "A u \<le> 1" if "0 \<le> u" "u \<le> 1" for u
    using alpha_cumprod_continuous[OF c that] clamp_bounds[OF cfg(4), of "level d u"] cfg r
    by (simp_all add: A_def)
  define h where "h = (\<lambda>(xb, tb, nb). map2 (\<lambda>xi ni. sqrt (A tb) * xi + sqrt (1 - A tb) * ni) xb nb)"
  let ?z = "zip x (zip t noise)"
  have lz: "length ?z = length x" using len by simp
  have nz: "?z ! b = (x ! b, t ! b, noise ! b)" if "b < length x" for b
    using that len by simp
  have "mapE (\<lambda>(xb, tb, nb). diffuse1 d xb tb nb) ?z = Inr (map h ?z)"
  proof (rule mapE_Inr_index)
    fix i assume "i < length ?z"
    then have i: "i < length x" using lz by simp
    have ti: "0 \<le> t ! i" "t ! i \<le> 1" using t i by simp_all
    show "(case ?z ! i of (xb, tb, nb) \<Rightarrow> diffuse1 d xb tb nb) = Inr (h (?z ! i))"
      unfolding nz[OF i] h_def prod.case
      by (rule diffuse1_total[OF A(1)[OF ti] A(2)[OF ti] A(3)[OF ti]])
  qed
  then have d1: "diffuse d g x t (Some noise) = Inr ((map h ?z, noise), g)"
    by (simp add: diffuse_def)
  have d2: "length (map h ?z) = length x" using lz by simp
  have d3: "\<exists>ac. alpha_cumprod d (t ! b) = Inr ac
                  \<and> map h ?z ! b = map2 (\<lambda>xi ni. sqrt ac * xi + sqrt (1 - ac) * ni) (x ! b) (noise ! b)
                  \<and> DDIM_x0 ac (map h ?z ! b) (noise ! b) = Inr (x ! b)" if b: "b < length x" for b
  proof -
    have tb: "0 \<le> t ! b" "t ! b \<le> 1" using t b by simp_all
    have e: "map h ?z ! b
        = map2 (\<lambda>xi ni. sqrt (A (t ! b)) * xi + sqrt (1 - A (t ! b)) * ni) (x ! b) (noise ! b)"
      using b lz nz[OF b] by (simp add: h_def)
    have "DDIM_x0 (A (t ! b)) (map h ?z ! b) (noise ! b) = Inr (x ! b)"
      unfolding e using rows b by (intro roundtrip_row A(2)[OF tb] A(3)[OF tb]) simp
    then show ?thesis using A(1)[OF tb] e by blast
  qed
  from d1 d2 d3 show ?thesis by blast
qed

theorem diffuse_DDIM_x0_roundtrip_witness:
  "Diffuzz_init (8 / 1000) None 1 (1 / 10000, 9999 / 10000) = Inr default_Diffuzz
   \<and> (\<exists>x_t ac. diffuse default_Diffuzz (\<lambda>k. 0) [[3, 5]] [1 / 2] (Some [[1, - 2]]) = Inr ((x_t, [[1, - 2]]), (\<lambda>k. 0))
         \<and> alpha_cumprod default_Diffuzz (1 / 2) = Inr ac
         \<and> x_t ! 0 = [sqrt ac * 3 + sqrt (1 - ac) * 1, sqrt ac * 5 + sqrt (1 - ac) * (- 2)]
         \<and> DDIM_x0 ac (x_t ! 0) [1, - 2] = Inr [3, 5])"
  using diffuse_DDIM_x0_roundtrip[OF Diffuzz_init_default, of "[1 / 2]" "[[3, 5]]" "[[1, - 2]]" "\<lambda>k. 0"]
    Diffuzz_init_default
  by auto

lemma suppressed_noise_row:
  assumes "length ms \<le> length zs"
  shows "map2 (\<lambda>mi si. mi + si * (0::real)) ms (map2 (\<lambda>_ zi. c * zi) ms zs) = ms"
  using assms
proof (induction ms arbitrary: zs)
  case Nil
  then show ?case by simp
next
  case (Cons m ms)
  then show ?case by (cases zs) simp_all
qed

lemma DDPM_step_rows:
  assumes init: "Diffuzz_init s0 None sc (lo, hi) = Inr d"
    and cfg: "0 \<le> s0" "0 \<le> sc" "0 < lo" "lo \<le> hi" "hi < 1"
    and len: "length t = length x" "length t_prev = length x" "length noise = length x"
    and t: "\<forall>i < length x. 0 \<le> t_prev ! i \<and> t_prev ! i \<le> t ! i \<and> t ! i \<le> 1"
  shows "\<exists>y g'. DDPM_step d g x t t_prev noise = Inr (y, g') \<and> length y = length x
          \<and> (\<forall>i < length x.
                DDPM_step1 d (x ! i) (t ! i) (t_prev ! i) (noise ! i) (fst (randn_like g x) ! i)
                  = Inr (y ! i))"
proof -
  have c: "continuous d" and r: "clamp_range d = (lo, hi)"
    using Diffuzz_init_continuous[OF init cfg(1,2)] by simp_all
  have lh: "fst (clamp_range d) \<le> snd (clamp_range d)" using r cfg by simp
  let ?z = "fst (randn_like g x)"
  let ?f = "\<lambda>(xb, tb, pb, nb, zb). DDPM_step1 d xb tb pb nb zb"
  let ?zs = "zip x (zip t (zip t_prev (zip noise ?z)))"
  define h where "h = (\<lambda>q. case ?f q of Inr v \<Rightarrow> v | Inl e \<Rightarrow> [])"
  have lz: "length ?zs = length x" using len by (simp add: randn_like_length)
  have nz: "?zs ! i = (x ! i, t ! i, t_prev ! i, noise ! i, ?z ! i)" if "i < length x" for i
    using that len by (simp add: randn_like_length)
  have ok: "\<exists>v. DDPM_step1 d (x ! i) (t ! i) (t_prev ! i) (noise ! i) zb = Inr v"
    if i: "i < length x" for i zb
  proof -
    have ti: "0 \<le> t ! i" "t ! i \<le> 1" "0 \<le> t_prev ! i" "t_prev ! i \<le> 1" "t_prev ! i \<le> t ! i"
      using t i by auto
    obtain a where a: "alpha_cumprod d (t ! i) = Inr a" "lo \<le> a" "a \<le> hi"
      using alpha_cumprod_in_range[OF c lh ti(1,2)] r by auto
    obtain b where b: "alpha_cumprod d (t_prev ! i) = Inr b" "lo \<le> b" "b \<le> hi"
      using alpha_cumprod_in_range[OF c lh ti(3,4)] r by auto
    have ab: "a \<le> b" by (rule alpha_cumprod_antimono[OF c ti(3) ti(5) ti(2) b(1) a(1)])
    have "0 < a" "a < 1" "0 < b" "b < 1" using a b cfg by simp_all
    from DDPM_step1_cases[OF a(1) this(1,2) b(1) this(3,4)] ab show ?thesis by simp
  qed
  have m: "mapE ?f ?zs = Inr (map h ?zs)"
  proof (rule mapE_Inr_index)
    fix i assume "i < length ?zs"
    then have i: "i < length x" using lz by simp
    obtain v where "DDPM_step1 d (x ! i) (t ! i) (t_prev ! i) (noise ! i) (?z ! i) = Inr v"
      using ok[OF i] by blast
    then show "?f (?zs ! i) = Inr (h (?zs ! i))"
      unfolding nz[OF i] h_def by simp
  qed
  have s: "DDPM_step d g x t t_prev noise = Inr (map h ?zs, snd (randn_like g x))"
    using m by (simp add: DDPM_step_def case_prod_beta)
  have e: "DDPM_step1 d (x ! i) (t ! i) (t_prev ! i) (noise ! i) (?z ! i) = Inr (map h ?zs ! i)"
    if i: "i < length x" for i
  proof -
    obtain v where v: "DDPM_step1 d (x ! i) (t ! i) (t_prev ! i) (noise ! i) (?z ! i) = Inr v"
      using ok[OF i] by blast
    have "map h ?zs ! i = h (?zs ! i)" using i lz by simp
    also have "\<dots> = v" unfolding nz[OF i] h_def using v by simp
    finally show ?thesis using v by simp
  qed
  have l: "length (map h ?zs) = length x" using lz by simp
  from s l e show ?thesis by blast
qed

lemma DDPM_step1_terminal:
  assumes "alpha_cumprod d t = Inr a" "0 < a" "a < 1"
    and "alpha_cumprod d 0 = Inr b" "0 < b" "b < 1" "a \<le> b"
    and "length x \<le> length z"
  shows "DDPM_step1 d x t 0 noise z
           = Inr (map2 (\<lambda>xi wi. sqrt (1 / (a / b)) * (xi - wi)) x
                    (map (\<lambda>ni. (1 - a / b) * ni / sqrt (1 - a)) noise))"
proof -
  let ?mu = "map2 (\<lambda>xi wi. sqrt (1 / (a / b)) * (xi - wi)) x
                    (map (\<lambda>ni. (1 - a / b) * ni / sqrt (1 - a)) noise)"
  have "length ?mu \<le> length z" using assms(8) by simp
  from suppressed_noise_row[OF this]
  show ?thesis
    unfolding DDPM_step1_cases[OF assms(1-6)] using assms(7) by simp
qed

section \<open>The terminal step of the ancestral sampler\<close>

text \<open>
  C9. For a schedule built without a cache (offset and scaler not negative, clamp range
  \<open>0 < lo \<le> hi < 1\<close>) and a batch of reverse steps \<open>0 \<le> t_prev \<le> t \<le> 1\<close>: the ancestral
  step returns a sample for any two generators, and on every batch element whose
  \<open>t_prev\<close> is exactly 0 the two outputs are the same, whatever fresh noise the generators
  deliver.
\<close>

theorem DDPM_terminal_step_deterministic:
  assumes init: "Diffuzz_init s0 None sc (lo, hi) = Inr d"
    and cfg: "0 \<le> s0" "0 \<le> sc" "0 < lo" "lo \<le> hi" "hi < 1"
    and len: "length t = length x" "length t_prev = length x" "length noise = length x"
    and t: "\<forall>i < length x. 0 \<le> t_prev ! i \<and> t_prev ! i \<le> t ! i \<and> t ! i \<le> 1"
    and b: "b < length x" "t_prev ! b = 0"
  shows "\<exists>y1 g1' y2 g2'. DDPM_step d g1 x t t_prev noise = Inr (y1, g1')
           \<and> DDPM_step d g2 x t t_prev noise = Inr (y2, g2')
           \<and> y1 ! b = y2 ! b"
proof -
  have c: "continuous d" and r: "clamp_range d = (lo, hi)"
    using Diffuzz_init_continuous[OF init cfg(1,2)] by simp_all
  have lh: "fst (clamp_range d) \<le> snd (clamp_range d)" using r cfg by simp
  obtain y1 g1' where 1: "DDPM_step d g1 x t t_prev noise = Inr (y1, g1')"
    "DDPM_step1 d (x ! b) (t ! b) (t_prev ! b) (noise ! b) (fst (randn_like g1 x) ! b) = Inr (y1 ! b)"
    using DDPM_step_rows[OF init cfg len t, of g1] b(1) by blast
  obtain y2 g2' where 2: "DDPM_step d g2 x t t_prev noise = Inr (y2, g2')"
    "DDPM_step1 d (x ! b) (t ! b) (t_prev ! b) (noise ! b) (fst (randn_like g2 x) ! b) = Inr (y2 ! b)"
    using DDPM_step_rows[OF init cfg len t, of g2] b(1) by blast
  have tb: "0 \<le> t ! b" "t ! b \<le> 1" using t b by auto
  obtain a where a: "alpha_cumprod d (t ! b) = Inr a" "lo \<le> a" "a \<le> hi"
    using alpha_cumprod_in_range[OF c lh tb] r by auto
  obtain a0 where a0: "alpha_cumprod d 0 = Inr a0" "lo \<le> a0" "a0 \<le> hi"
    using alpha_cumprod_in_range[OF c lh, of 0] r by auto
  have le: "a \<le> a0" by (rule alpha_cumprod_antimono[OF c _ tb(1) tb(2) a0(1) a(1)]) simp
  have p: "0 < a" "a < 1" "0 < a0" "a0 < 1" using a a0 cfg by simp_all
  have "y1 ! b = y2 ! b"
    using 1(2) 2(2) unfolding b(2)
    by (simp add: DDPM_step1_terminal[OF a(1) p(1,2) a0(1) p(3,4) le] randn_like_row_length[OF b(1)])
  then show ?thesis using 1(1) 2(1) by blast
qed

theorem DDPM_terminal_step_deterministic_witness:
  "Diffuzz_init (8 / 1000) None 1 (1 / 10000, 9999 / 10000) = Inr default_Diffuzz
   \<and> (\<exists>y1 g1' y2 g2'. DDPM_step default_Diffuzz (\<lambda>k. 1) [[3, 5]] [1 / 2] [0] [[1, - 2]] = Inr (y1, g1')
         \<and> DDPM_step default_Diffuzz (\<lambda>k. - 7) [[3, 5]] [1 / 2] [0] [[1, - 2]] = Inr (y2, g2')
         \<and> y1 ! 0 = y2 ! 0)"
  using DDPM_terminal_step_deterministic[OF Diffuzz_init_default,
      of "[1 / 2]" "[[3, 5]]" "[0]" "[[1, - 2]]" 0 "\<lambda>k. 1" "\<lambda>k. - 7"]
    Diffuzz_init_default
  by simp

section \<open>The sampling loop: starting sample and inpainting\<close>


lemma sqrt_1e4: "sqrt (1 / 10000) = 1 / 100"
  by (rule real_sqrt_unique) (simp_all add: power2_eq_square)

lemma default_alpha_zero: "alpha_cumprod default_Diffuzz 0 = Inr (9999 / 10000)"
proof -
  have "init_alpha_cumprod default_Diffuzz \<noteq> 0"
    using init_pos(1)[OF default_continuous] by simp
  then have "level default_Diffuzz 0 = 1"
    by (simp add: level_def warp_def default_Diffuzz_def)
  then show ?thesis
    using default_alpha[of 0] by (simp add: clamp_def)
qed

lemma default_alpha_one: "alpha_cumprod default_Diffuzz 1 = Inr (1 / 10000)"
  by (rule default_alpha_near_one) simp_all

text \<open>
  C3, as stated, fails. One inpainting step of the deterministic sampler, with a mask that
  is 1 everywhere, the seed 1, every noise draw 0 and a denoiser that predicts 0: the sample
  after the iteration is 0 at the masked entry, whereas the seed re-diffused to the
  iteration's progress value 1 is 1/100 (and to 0, the value the step moves to, it is
  \<open>sqrt (9999/10000)\<close>).
\<close>

theorem inpainting_mask_one_not_pinned:
  "sample default_Diffuzz (\<lambda>k. 0) (\<lambda>x t. Inr (map (map (\<lambda>v. 0)) x)) (1, [1]) (Some [[1]])
      1 0 1 (Some [[1]]) (SamplerStr ''ddim'') ''linear'' = Inr [[[0]]]
   \<and> diffuse default_Diffuzz (\<lambda>k. 0) [[1]] [1] None = Inr (([[1 / 100]], [[0]]), (\<lambda>k. 0))
   \<and> diffuse default_Diffuzz (\<lambda>k. 0) [[1]] [0] None
        = Inr (([[sqrt (9999 / 10000)]], [[0]]), (\<lambda>k. 0))"
proof -
  have rr: "r_range ''linear'' 1 0 (Suc 0) (Suc 0, [Suc 0]) (Some [[1]]) = Inr [[1], [0]]"
    by (simp add: r_range_def linspace_def)
  have d1: "diffuse default_Diffuzz (\<lambda>k. 0) [[1]] [1] None = Inr (([[1 / 100]], [[0]]), (\<lambda>k. 0))"
    by (simp add: diffuse_def diffuse1_def default_alpha_one tsqrt_def sqrt_1e4)
  have d0: "diffuse default_Diffuzz (\<lambda>k. 0) [[1]] [0] None
        = Inr (([[sqrt (9999 / 10000)]], [[0]]), (\<lambda>k. 0))"
    by (simp add: diffuse_def diffuse1_def default_alpha_zero tsqrt_def)
  have st: "DDIM_step1 default_Diffuzz [0] 1 0 [0] = Inr [0]"
    by (simp add: DDIM_step1_def DDIM_x0_def default_alpha_one default_alpha_zero tsqrt_def tdiv_def)
  have "sample default_Diffuzz (\<lambda>k. 0) (\<lambda>x t. Inr (map (map (\<lambda>v. 0)) x)) (1, [1]) (Some [[1]])
      1 0 1 (Some [[1]]) (SamplerStr ''ddim'') ''linear'' = Inr [[[0]]]"
    by (simp add: sample_def rr make_sampler_def sampler_dict_def new_sampler_def
        start_x_def init_x_def randn_def sample_iteration_def d1 blend_def undiffuse_def
        sampler_call_def step_def DDIM_step_def st)
  then show ?thesis using d1 d0 by simp
qed

lemma blend_entry:
  assumes "b < length x" "b < length m" "b < length xr"
    and "j < length (x ! b)" "j < length (m ! b)" "j < length (xr ! b)"
  shows "blend x m xr ! b ! j = x ! b ! j * (m ! b ! j) + xr ! b ! j * (1 - m ! b ! j)"
  using assms by (simp add: blend_def)

text \<open>
  C3, amended. In inpainting mode every iteration first computes the blend of the working
  sample with the seed re-diffused, with fresh noise, to the iteration's progress value
  \<open>rr ! i\<close>, and then does what an iteration without mask does on that blend (denoiser,
  sampler step); the sample it appends is the sampler's output. In the blend an entry
  where the mask is 0 is the re-diffused seed and an entry where the mask is 1 is the
  working (iteratively denoised) value.
\<close>

theorem inpainting_iteration_blends_before_step:
  "sample_iteration d model (Some m) (Some xi) rr i (x, smp, g)
     = bindE (diffuse d g xi (rr ! i) None) (\<lambda>((x_renoised, n), g').
         sample_iteration d model None None rr i (blend x m x_renoised, smp, g'))
   \<and> (\<forall>xr b j. b < length x \<and> b < length m \<and> b < length xr
           \<and> j < length (x ! b) \<and> j < length (m ! b) \<and> j < length (xr ! b)
         \<longrightarrow> (m ! b ! j = 0 \<longrightarrow> blend x m xr ! b ! j = xr ! b ! j)
           \<and> (m ! b ! j = 1 \<longrightarrow> blend x m xr ! b ! j = x ! b ! j))"
proof -
  have 1: "sample_iteration d model (Some m) (Some xi) rr i (x, smp, g)
     = bindE (diffuse d g xi (rr ! i) None) (\<lambda>((x_renoised, n), g').
         sample_iteration d model None None rr i (blend x m x_renoised, smp, g'))"
    by (cases "diffuse d g xi (rr ! i) None") (simp_all add: sample_iteration_def case_prod_beta)
  have 2: "(m ! b ! j = 0 \<longrightarrow> blend x m xr ! b ! j = xr ! b ! j)
           \<and> (m ! b ! j = 1 \<longrightarrow> blend x m xr ! b ! j = x ! b ! j)"
    if "b < length x \<and> b < length m \<and> b < length xr
           \<and> j < length (x ! b) \<and> j < length (m ! b) \<and> j < length (xr ! b)" for xr b j
    using blend_entry[of b x m xr j] that by simp
  from 1 2 show ?thesis by blast
qed

theorem inpainting_iteration_blends_before_step_witness:
  "sample_iteration default_Diffuzz (\<lambda>x t. Inr (map (map (\<lambda>v. 0)) x)) (Some [[1, 0]])
       (Some [[1, 1]]) [[1], [0]] 0 ([[5, 6]], new_sampler DDIMSampler, (\<lambda>k. 0))
     = sample_iteration default_Diffuzz (\<lambda>x t. Inr (map (map (\<lambda>v. 0)) x)) None None [[1], [0]] 0
         (blend [[5, 6]] [[1, 0]] [[1 / 100, 1 / 100]], new_sampler DDIMSampler, (\<lambda>k. 0))
   \<and> [[1, 0 :: real]] ! 0 ! 1 = 0 \<and> blend [[5, 6]] [[1, 0]] [[1 / 100, 1 / 100]] ! 0 ! 1 = 1 / 100
   \<and> [[1, 0 :: real]] ! 0 ! 0 = 1 \<and> blend [[5, 6]] [[1, 0]] [[1 / 100, 1 / 100]] ! 0 ! 0 = 5"
proof -
  have d: "diffuse default_Diffuzz (\<lambda>k. 0) [[1, 1]] ([[1], [0]] ! 0) None
             = Inr (([[1 / 100, 1 / 100]], [[0, 0]]), (\<lambda>k. 0))"
    by (simp add: diffuse_def diffuse1_def default_alpha_one tsqrt_def sqrt_1e4 numeral_2_eq_2)
  show ?thesis
    using inpainting_iteration_blends_before_step[of default_Diffuzz
        "\<lambda>x t. Inr (map (map (\<lambda>v. 0)) x)" "[[1, 0]]" "[[1, 1]]" "[[1], [0]]" 0 "[[5, 6]]"
        "new_sampler DDIMSampler" "\<lambda>k. 0"]
    unfolding d by (simp add: blend_def)
qed

section \<open>The attention mask\<close>

lemma Attention_forward_mask:
  "Attention_forward cfg a x attn_mask = Attention_forward cfg a x None"
  by (simp add: Attention_forward_def)

lemma DiTBlock_forward_mask:
  "DiTBlock_forward cfg blk h temb attn_mask = DiTBlock_forward cfg blk h temb None"
  by (simp add: DiTBlock_forward_def Attention_forward_mask[of _ _ _ attn_mask]
      split: list.splits)

lemma blocks_forward_mask:
  "blocks_forward cfg blks h temb attn_mask = blocks_forward cfg blks h temb None"
  by (induction blks arbitrary: h) (simp_all add: DiTBlock_forward_mask[of _ _ _ _ attn_mask])

text \<open>
  C1. \<open>Attention_forward\<close> receives the mask and calls the attention function with
  \<^verbatim>\<open>attn_mask=None\<close>: the result of the attention module, of a block and of the whole
  forward pass is the same for every mask as for no mask. On a sequence of two positions
  whose mask marks position 1 invalid, the attention output at the valid position 0 is the
  mean over both positions, so it moves from 3 to 4 when only the invalid position's input
  moves from 5 to 7; the masked attention function gives 1 there.
\<close>

theorem attention_mask_is_dropped:
  "Attention_forward cfg a x attn_mask = Attention_forward cfg a x None
   \<and> DiTBlock_forward cfg blk h temb attn_mask = DiTBlock_forward cfg blk h temb None
   \<and> DiT_forward m x' t attn_mask eps = DiT_forward m x' t None eps
   \<and> Attention_forward unit_attention_config unit_attention [[1], [5]]
        (Some [[True, False], [True, False]]) = Inr [[3], [3]]
   \<and> Attention_forward unit_attention_config unit_attention [[1], [7]]
        (Some [[True, False], [True, False]]) = Inr [[4], [4]]
   \<and> scaled_dot_product_attention [[0], [0]] [[0], [0]] [[1], [5]]
        (Some [[True, False], [True, False]]) = [[1], [1]]"
proof -
  have 1: "Attention_forward cfg a x attn_mask = Attention_forward cfg a x None"
    by (rule Attention_forward_mask)
  have 3: "DiT_forward m x' t attn_mask eps = DiT_forward m x' t None eps"
    by (simp add: DiT_forward_def blocks_forward_mask[of _ _ _ _ attn_mask])
  have u: "[0..<2] = [0, 1]" by (simp add: numeral_2_eq_2)
  have 4: "Attention_forward unit_attention_config unit_attention [[1], [y]] msk
             = Inr [[(1 + y) / 2], [(1 + y) / 2]]" for y msk
    by (simp add: Attention_forward_def unit_attention_config_def unit_attention_def
        Linear_forward_def dot_def scaled_dot_product_attention_def vsum_def u Let_def)
  have 5: "scaled_dot_product_attention [[0], [0]] [[0], [0]] [[1], [5]]
        (Some [[True, False], [True, False]]) = [[1], [1]]"
    by (simp add: scaled_dot_product_attention_def dot_def vsum_def u Let_def)
  show ?thesis
    using 1 DiTBlock_forward_mask 3 4[of 5] 4[of 7] 5 by simp
qed

section \<open>The forward pass right after initialisation\<close>


lemma Linear_shape_zero_bias [simp]: "Linear_shape (zero_bias l) a b = Linear_shape l a b"
  by (cases "bias l") (simp_all add: Linear_shape_def zero_bias_def)

lemma Linear_shape_zero_weight [simp]: "Linear_shape (zero_weight l) a b = Linear_shape l a b"
  by (simp add: Linear_shape_def zero_weight_def)







lemma length_LayerNorm [simp]: "length (LayerNorm e v) = length v"
  by (simp add: LayerNorm_def Let_def)


























end
